theory Spec2Isabelle
  imports Complex_Main
begin

section \<open>Python values and errors\<close>

text \<open>
  The command-line front ends of BIGSI (\<^verbatim>\<open>bigsi/__main__.py\<close>) and of its predecessor
  (\<^verbatim>\<open>remcdbg/main.py\<close>) are embedded here. Python integers are \<open>int\<close>, text is
  \<open>string\<close>, an optional argument whose default is \<^verbatim>\<open>None\<close> is an \<open>option\<close>, and
  every exception the code can raise is a value of \<open>py_error\<close> returned on the left of
  a sum.
\<close>

datatype py_error =
    ZeroDivisionError
  | ValueError string
  | IndexError
  | OverflowError
  | AssertionError
  | UnboundLocalError
  | BusyLoadingError
  | IOFailure
  | ParameterMismatch
  | DuplicateSample
  | SystemExit int
  | OtherError string

text \<open>What a front-end operation hands back: \<^verbatim>\<open>None\<close>, a message, a JSON object of
  text fields, or the value an imported command returned.\<close>

datatype 'r py_value =
    PyNone
  | PyStr string
  | PyDict "(string \<times> string) list"
  | Returned 'r

text \<open>Truth value of an optional text argument: \<^verbatim>\<open>None\<close> and \<^verbatim>\<open>""\<close> are false.\<close>

definition truthy :: "string option \<Rightarrow> bool" where
  "truthy s = (case s of None \<Rightarrow> False | Some v \<Rightarrow> v \<noteq> [])"

text \<open>\<^verbatim>\<open>str\<close> of an integer and of a pair of integers, as \<^verbatim>\<open>print\<close> writes them.\<close>

fun digits :: "nat \<Rightarrow> string" where
  "digits n = (if n < 10 then [char_of (48 + n)]
               else digits (n div 10) @ [char_of (48 + n mod 10)])"

declare digits.simps [simp del]

definition str_int :: "int \<Rightarrow> string" where
  "str_int i = (if i < 0 then CHR ''-'' # digits (nat (- i)) else digits (nat i))"

definition str_pair :: "int \<times> int \<Rightarrow> string" where
  "str_pair p = ''('' @ str_int (fst p) @ '', '' @ str_int (snd p) @ '')''"

text \<open>
  \<^verbatim>\<open>math.ceil(a / b)\<close> on Python integers. Division by zero raises. Otherwise the
  quotient is rounded to the nearest double before the ceiling is taken. When both
  operands are below \<open>2^53\<close> in absolute value the rounding cannot move the quotient onto
  or across an integer (an integer quotient is a double, and any other quotient lies
  at least \<open>1 / |b|\<close> from the nearest integer, more than half the spacing of the doubles
  there), so the result is the exact ceiling. Beyond that range the float decides: the
  ceiling can be off (\<open>2^53 + 1\<close> over \<open>1\<close> gives \<open>2^53\<close>), the division can raise
  \<^verbatim>\<open>OverflowError\<close>, and a tiny quotient becomes \<open>0\<close>. What it gives there is the
  parameter \<open>float_ceil\<close>, about which nothing is assumed.
\<close>

definition ceil_div :: "(int \<Rightarrow> int \<Rightarrow> py_error + int) \<Rightarrow> int \<Rightarrow> int \<Rightarrow> py_error + int" where
  "ceil_div float_ceil a b =
     (if b = 0 then Inl ZeroDivisionError
      else if \<bar>a\<bar> < 2 ^ 53 \<and> \<bar>b\<bar> < 2 ^ 53 then Inr (- ((- a) div b))
      else float_ceil a b)"

text \<open>
  \<^verbatim>\<open>list(range(start, stop, step))\<close>: a zero step raises \<^verbatim>\<open>ValueError\<close>. The list is
  a value here; the memory it takes in the interpreter is not modelled.
\<close>

definition py_range :: "int \<Rightarrow> int \<Rightarrow> int \<Rightarrow> py_error + int list" where
  "py_range start stop step =
     (if step = 0 then Inl (ValueError ''range() arg 3 must not be zero'')
      else if 0 < step then
        Inr (map (\<lambda>k. start + int k * step) [0 ..< nat ((stop - start + step - 1) div step)])
      else
        Inr (map (\<lambda>k. start + int k * step) [0 ..< nat ((start - stop - step - 1) div (- step))]))"

text \<open>
  \<^verbatim>\<open>xs[i]\<close> on a Python list: an index below zero counts from the end, and an index
  outside the list raises \<^verbatim>\<open>IndexError\<close>.
\<close>

definition py_getitem :: "'a list \<Rightarrow> int \<Rightarrow> py_error + 'a" where
  "py_getitem xs i =
     (if 0 \<le> i \<and> i < int (length xs) then Inr (xs ! nat i)
      else if i < 0 \<and> - int (length xs) \<le> i then Inr (xs ! nat (int (length xs) + i))
      else Inl IndexError)"

section \<open>The index handle\<close>

text \<open>
  An object of class \<^verbatim>\<open>BIGSI\<close> as the front end sees it: the database path and the
  mode it was opened with (\<open>None\<close> when the caller passed no mode), and the two
  attributes the front end reads.
\<close>

record BIGSI =
  db_path :: string
  open_mode :: "string option"
  bloom_filter_size :: int
  kmer_size :: int

section \<open>Row ranges\<close>

text \<open>
  \<^verbatim>\<open>
  def bf_range_calc(index, i, N):
      batch_size = math.ceil(index.bloom_filter_size / N)
      i = list(range(0, index.bloom_filter_size, batch_size))[i - 1]
      j = i + batch_size
      return (i, j)
  \<close>
\<close>

definition bf_range_calc ::
  "(int \<Rightarrow> int \<Rightarrow> py_error + int) \<Rightarrow> BIGSI \<Rightarrow> int \<Rightarrow> int \<Rightarrow> py_error + (int \<times> int)" where
  "bf_range_calc float_ceil index i N =
     (case ceil_div float_ceil (bloom_filter_size index) N of
        Inl e \<Rightarrow> Inl e
      | Inr batch_size \<Rightarrow>
          (case py_range 0 (bloom_filter_size index) batch_size of
             Inl e \<Rightarrow> Inl e
           | Inr starts \<Rightarrow>
               (case py_getitem starts (i - 1) of
                  Inl e \<Rightarrow> Inl e
                | Inr i' \<Rightarrow> Inr (i', i' + batch_size))))"

section \<open>The index behind the handle\<close>

text \<open>
  Modelled from the spec: the class \<^verbatim>\<open>BIGSI\<close> (package \<^verbatim>\<open>bigsi.graph\<close>), with its
  constructor and its \<^verbatim>\<open>merge\<close> method, is not among the sources. An index is the
  header \<open>(k, m, h)\<close>, the logical \<open>m \<times> n\<close> bit matrix held row by row, and the sample
  registry indexed by column, where \<open>None\<close> is a tombstone.
\<close>

type_synonym bits = "bool list"

record index_state =
  hdr_k :: int
  hdr_m :: int
  hdr_h :: int
  rows :: "bits list"
  registry :: "string option list"

text \<open>The keyword arguments with which the front end calls the imported commands.\<close>

record search_call =
  sc_seq :: "string option"
  sc_fasta_file :: "string option"
  sc_threshold :: real
  sc_graph :: BIGSI
  sc_output_format :: string
  sc_pipe :: bool
  sc_score :: bool

record build_call =
  bc_index :: BIGSI
  bc_bloomfilter_filepaths :: "string list"
  bc_samples :: "string list"
  bc_max_memory :: "int option"
  bc_lowmem :: bool
  bc_bf_range :: "int \<times> int"

datatype kmer_source =
    No_kmers
  | Kmers_text string
  | Kmers_of_ctx string int

record bloom_call =
  blc_outfile :: string
  blc_kmers :: kmer_source
  blc_kmer_file :: "string option"
  blc_graph :: BIGSI
  blc_bf_range :: "int list"
  blc_batch_size :: int

text \<open>
  The process state: the indexes on disk by path, the text files, what was printed, and
  a log of the calls made to collaborators that are not part of the front end.
\<close>

datatype cmd_module =
    Cmds_insert
  | Cmds_query
  | Cmds_stats
  | Cmds_samples
  | Cmds_kmers
  | Cmds_compress
  | Cmds_shutdown
  | Cmds_bitcount

datatype event =
    Open_BIGSI string "int option" "int option" "string option"
  | Call_search search_call
  | Call_build build_call
  | Call_bloom bloom_call
  | Call_merge string string
  | Call_run cmd_module

record world =
  dbs :: "string \<rightharpoonup> index_state"
  files :: "string \<rightharpoonup> string list"
  stdout :: "string list"
  trace :: "event list"

type_synonym 'a action = "world \<Rightarrow> (py_error + 'a) \<times> world"

text \<open>Sequencing: an exception ends the operation with the state reached so far.\<close>

definition and_then :: "'a action \<Rightarrow> ('a \<Rightarrow> 'b action) \<Rightarrow> 'b action" where
  "and_then f g w = (case f w of (Inl e, w') \<Rightarrow> (Inl e, w') | (Inr x, w') \<Rightarrow> g x w')"

definition returns :: "'a \<Rightarrow> 'a action" where
  "returns x w = (Inr x, w)"

definition raises :: "py_error \<Rightarrow> 'a action" where
  "raises e w = (Inl e, w)"

definition lift :: "py_error + 'a \<Rightarrow> 'a action" where
  "lift r w = (r, w)"

definition log_event :: "event \<Rightarrow> world \<Rightarrow> world" where
  "log_event ev w = w\<lparr>trace := trace w @ [ev]\<rparr>"

text \<open>
  Modelled from the spec: \<^verbatim>\<open>BIGSI(db, cachesize, nproc, mode)\<close> opens the index at
  \<^verbatim>\<open>db\<close> in the requested mode and reads the header. The front end itself expects a
  \<^verbatim>\<open>ValueError\<close> from the constructor (its \<^verbatim>\<open>delete\<close> catches one), which is what an
  absent index gives here.
\<close>

definition BIGSI_open ::
  "string \<Rightarrow> int option \<Rightarrow> int option \<Rightarrow> string option \<Rightarrow> BIGSI action" where
  "BIGSI_open db cachesize nproc mode w =
     (case dbs w db of
        None \<Rightarrow> (Inl (ValueError ''Cannot find a BIGSI''),
                 log_event (Open_BIGSI db cachesize nproc mode) w)
      | Some st \<Rightarrow>
          (Inr \<lparr>db_path = db, open_mode = mode,
                bloom_filter_size = hdr_m st, kmer_size = hdr_k st\<rparr>,
           log_event (Open_BIGSI db cachesize nproc mode) w))"

text \<open>
  Modelled from the spec: the operations a command performs on the index through its
  handle. Reading leaves the index as it is; a handle opened with mode \<^verbatim>\<open>"r"\<close> is
  read-only, and a write through it fails without changing anything.
\<close>

datatype store_op =
    Get_row nat
  | Put_row nat bits
  | Registry_add string
  | Tombstone nat

fun writes :: "store_op \<Rightarrow> bool" where
  "writes (Get_row r) = False"
| "writes (Put_row r v) = True"
| "writes (Registry_add name) = True"
| "writes (Tombstone c) = True"

fun apply_op :: "store_op \<Rightarrow> index_state \<Rightarrow> py_error + index_state" where
  "apply_op (Get_row r) st = Inr st"
| "apply_op (Put_row r v) st = Inr (st\<lparr>rows := (rows st)[r := v]\<rparr>)"
| "apply_op (Registry_add name) st =
     (if Some name \<in> set (registry st) then Inl DuplicateSample
      else Inr (st\<lparr>registry := registry st @ [Some name]\<rparr>))"
| "apply_op (Tombstone c) st = Inr (st\<lparr>registry := (registry st)[c := None]\<rparr>)"

definition read_only :: "BIGSI \<Rightarrow> bool" where
  "read_only h = (open_mode h = Some ''r'')"

definition exec_op :: "BIGSI \<Rightarrow> store_op \<Rightarrow> index_state \<Rightarrow> py_error + index_state" where
  "exec_op h op st = (if writes op \<and> read_only h then Inl IOFailure else apply_op op st)"

fun exec_ops :: "BIGSI \<Rightarrow> store_op list \<Rightarrow> index_state \<Rightarrow> py_error option \<times> index_state" where
  "exec_ops h [] st = (None, st)"
| "exec_ops h (op # ops) st =
     (case exec_op h op st of
        Inl e \<Rightarrow> (Some e, st)
      | Inr st' \<Rightarrow> exec_ops h ops st')"

text \<open>
  The imported commands (\<^verbatim>\<open>bigsi.cmds.search\<close>, \<^verbatim>\<open>build\<close>, \<^verbatim>\<open>bloom\<close>) are not among the
  sources either. Each is a parameter: given its keyword arguments and the state it can
  read, it yields the operations it performs through the handle and its result.
\<close>

type_synonym 'r command = "world \<Rightarrow> store_op list \<times> (py_error + 'r)"

definition run_command :: "BIGSI \<Rightarrow> 'r command \<Rightarrow> 'r action" where
  "run_command h prog w =
     (case dbs w (db_path h) of
        None \<Rightarrow> (Inl IOFailure, w)
      | Some st \<Rightarrow>
          (case exec_ops h (fst (prog w)) st of
             (Some e, st') \<Rightarrow> (Inl e, w\<lparr>dbs := (dbs w)(db_path h \<mapsto> st')\<rparr>)
           | (None, st') \<Rightarrow> (snd (prog w), w\<lparr>dbs := (dbs w)(db_path h \<mapsto> st')\<rparr>)))"

text \<open>
  Modelled from the spec: \<^verbatim>\<open>read_row(r)\<close> is a bit vector of length \<open>n\<close>, the number of
  columns in the registry. An absent row reads as zeroes, and a row stored shorter than
  \<open>n\<close> reads as padded with zeroes on the right.
\<close>

definition read_row :: "index_state \<Rightarrow> nat \<Rightarrow> bits" where
  "read_row st r =
     map (\<lambda>c. r < length (rows st) \<and> c < length (rows st ! r) \<and> rows st ! r ! c)
       [0 ..< length (registry st)]"

text \<open>
  Modelled from the spec: \<^verbatim>\<open>acceptor.merge(donor)\<close> requires identical \<open>(k, m, h)\<close> and,
  for each row \<open>r\<close> in \<open>[0, m)\<close>, writes the acceptor's row followed by the donor's, so that
  the donor's columns occupy \<open>[n_a, n_a + n_d)\<close>. The donor's registry entries follow the
  acceptor's, tombstones staying tombstones.
\<close>

definition merged_state :: "index_state \<Rightarrow> index_state \<Rightarrow> index_state" where
  "merged_state a d =
     a\<lparr>rows := map (\<lambda>r. read_row a r @ read_row d r) [0 ..< nat (hdr_m a)],
       registry := registry a @ registry d\<rparr>"

definition BIGSI_merge :: "BIGSI \<Rightarrow> BIGSI \<Rightarrow> unit action" where
  "BIGSI_merge acceptor donor w =
     (case dbs w (db_path acceptor) of
        None \<Rightarrow> (Inl IOFailure, log_event (Call_merge (db_path acceptor) (db_path donor)) w)
      | Some a \<Rightarrow>
          (case dbs w (db_path donor) of
             None \<Rightarrow> (Inl IOFailure, log_event (Call_merge (db_path acceptor) (db_path donor)) w)
           | Some d \<Rightarrow>
               if read_only acceptor then
                 (Inl IOFailure, log_event (Call_merge (db_path acceptor) (db_path donor)) w)
               else if hdr_k a \<noteq> hdr_k d \<or> hdr_m a \<noteq> hdr_m d \<or> hdr_h a \<noteq> hdr_h d then
                 (Inl ParameterMismatch,
                  log_event (Call_merge (db_path acceptor) (db_path donor)) w)
               else
                 (Inr (),
                  log_event (Call_merge (db_path acceptor) (db_path donor))
                    (w\<lparr>dbs := (dbs w)(db_path acceptor \<mapsto> merged_state a d)\<rparr>))))"

section \<open>Module constants\<close>

text \<open>
  \<^verbatim>\<open>
  BFSIZE = int(os.environ.get("BFSIZE", 25000000))
  NUM_HASHES = int(os.environ.get("NUM_HASHES", 3))
  STORAGE = os.environ.get("STORAGE", "berkeleydb")
  BDB_DB_FILENAME = os.environ.get("BDB_DB_FILENAME", "./db")
  CACHESIZE = int(os.environ.get("CACHESIZE", 1))
  DEFUALT_DB_DIRECTORY = "./db-bigsi/"
  \<close>
  The environment is a map from names to text. Python's \<^verbatim>\<open>int\<close> on text is a
  parameter, \<open>int_of_text\<close>; on the integer default it is the identity.
\<close>

record module_globals =
  BFSIZE :: int
  NUM_HASHES :: int
  STORAGE :: string
  BDB_DB_FILENAME :: string
  CACHESIZE :: int

definition environ_get :: "(string \<rightharpoonup> string) \<Rightarrow> string \<Rightarrow> string \<Rightarrow> string" where
  "environ_get environ name dflt = (case environ name of None \<Rightarrow> dflt | Some v \<Rightarrow> v)"

definition environ_int ::
  "(string \<Rightarrow> py_error + int) \<Rightarrow> (string \<rightharpoonup> string) \<Rightarrow> string \<Rightarrow> int \<Rightarrow> py_error + int" where
  "environ_int int_of_text environ name dflt =
     (case environ name of None \<Rightarrow> Inr dflt | Some v \<Rightarrow> int_of_text v)"

definition module_load ::
  "(string \<Rightarrow> py_error + int) \<Rightarrow> (string \<rightharpoonup> string) \<Rightarrow> py_error + module_globals" where
  "module_load int_of_text environ =
     (case environ_int int_of_text environ ''BFSIZE'' 25000000 of
        Inl e \<Rightarrow> Inl e
      | Inr bfsize \<Rightarrow>
          (case environ_int int_of_text environ ''NUM_HASHES'' 3 of
             Inl e \<Rightarrow> Inl e
           | Inr num_hashes \<Rightarrow>
               (case environ_int int_of_text environ ''CACHESIZE'' 1 of
                  Inl e \<Rightarrow> Inl e
                | Inr cachesize \<Rightarrow>
                    Inr \<lparr>BFSIZE = bfsize, NUM_HASHES = num_hashes,
                         STORAGE = environ_get environ ''STORAGE'' ''berkeleydb'',
                         BDB_DB_FILENAME = environ_get environ ''BDB_DB_FILENAME'' ''./db'',
                         CACHESIZE = cachesize\<rparr>)))"

definition DEFUALT_DB_DIRECTORY :: string where
  "DEFUALT_DB_DIRECTORY = ''./db-bigsi/''"

section \<open>The operations of class bigsi\<close>

definition print :: "string \<Rightarrow> unit action" where
  "print line w = (Inr (), w\<lparr>stdout := stdout w @ [line]\<rparr>)"

definition write_file :: "string \<Rightarrow> string list \<Rightarrow> unit action" where
  "write_file fp lines w = (Inr (), w\<lparr>files := (files w)(fp \<mapsto> lines)\<rparr>)"

definition call_search :: "(search_call \<Rightarrow> 'r command) \<Rightarrow> search_call \<Rightarrow> 'r action" where
  "call_search cmd c w = run_command (sc_graph c) (cmd c) (log_event (Call_search c) w)"

definition call_build :: "(build_call \<Rightarrow> 'r command) \<Rightarrow> build_call \<Rightarrow> 'r action" where
  "call_build cmd c w = run_command (bc_index c) (cmd c) (log_event (Call_build c) w)"

definition call_bloom :: "(bloom_call \<Rightarrow> 'r command) \<Rightarrow> bloom_call \<Rightarrow> 'r action" where
  "call_bloom cmd c w = run_command (blc_graph c) (cmd c) (log_event (Call_bloom c) w)"

subsection \<open>bloom\<close>

text \<open>
  \<^verbatim>\<open>
  def bloom(self, outfile, db=DEFUALT_DB_DIRECTORY, kmers=None, seqfile=None, ctx=None, N: int = 1):
      index = BIGSI(db, mode="r")
      if ctx:
          kmers = extract_kmers_from_ctx(ctx, index.kmer_size)
      if not kmers and not seqfile:
          return "--kmers or --seqfile must be provided"
      batch_size = math.ceil(index.bloom_filter_size / N)
      bf_range = range(0, index.bloom_filter_size, batch_size)
      bf = bloom(outfile=outfile, kmers=kmers, kmer_file=seqfile, graph=index,
                 bf_range=bf_range, batch_size=batch_size)
  \<close>
  \<^verbatim>\<open>extract_kmers_from_ctx\<close> is a generator function: calling it reads nothing and
  gives a generator object, which is true in a condition. The float ceiling from
  \<open>2^53\<close> on is a parameter, as in \<^verbatim>\<open>bf_range_calc\<close>.
\<close>

record bloom_args =
  bl_outfile :: string
  bl_db :: string
  bl_kmers :: "string option"
  bl_seqfile :: "string option"
  bl_ctx :: "string option"
  bl_N :: int

definition bloom_defaults :: "string \<Rightarrow> bloom_args" where
  "bloom_defaults outfile =
     \<lparr>bl_outfile = outfile, bl_db = DEFUALT_DB_DIRECTORY, bl_kmers = None,
      bl_seqfile = None, bl_ctx = None, bl_N = 1\<rparr>"

fun kmers_truthy :: "kmer_source \<Rightarrow> bool" where
  "kmers_truthy No_kmers = False"
| "kmers_truthy (Kmers_text t) = (t \<noteq> [])"
| "kmers_truthy (Kmers_of_ctx ctx k) = True"

definition given_kmers :: "string option \<Rightarrow> kmer_source" where
  "given_kmers kmers = (case kmers of None \<Rightarrow> No_kmers | Some t \<Rightarrow> Kmers_text t)"

definition bigsi_bloom ::
  "(int \<Rightarrow> int \<Rightarrow> py_error + int) \<Rightarrow> (bloom_call \<Rightarrow> 'r command) \<Rightarrow> bloom_args \<Rightarrow>
   'r py_value action" where
  "bigsi_bloom float_ceil cmd_bloom a =
     and_then (BIGSI_open (bl_db a) None None (Some ''r'')) (\<lambda>index.
       let kmers = (case bl_ctx a of
                      None \<Rightarrow> given_kmers (bl_kmers a)
                    | Some ctx \<Rightarrow> if ctx \<noteq> [] then Kmers_of_ctx ctx (kmer_size index)
                                 else given_kmers (bl_kmers a))
       in
       if \<not> kmers_truthy kmers \<and> \<not> truthy (bl_seqfile a) then
         returns (PyStr ''--kmers or --seqfile must be provided'')
       else
         and_then (lift (ceil_div float_ceil (bloom_filter_size index) (bl_N a))) (\<lambda>batch_size.
         and_then (lift (py_range 0 (bloom_filter_size index) batch_size)) (\<lambda>bf_range.
         and_then (call_bloom cmd_bloom
                     \<lparr>blc_outfile = bl_outfile a, blc_kmers = kmers,
                      blc_kmer_file = bl_seqfile a, blc_graph = index,
                      blc_bf_range = bf_range, blc_batch_size = batch_size\<rparr>) (\<lambda>bf.
         returns PyNone))))"

subsection \<open>build\<close>

text \<open>
  \<^verbatim>\<open>
  def build(self, db, bloomfilters, samples=[], max_memory="", lowmem=False, i: int = 1, N: int = 1):
      index = BIGSI(db)
      if samples:
          assert len(samples) == len(bloomfilters)
      else:
          samples = bloomfilters
      if max_memory:
          max_memory_bytes = humanfriendly.parse_size(max_memory)
      else:
          max_memory_bytes = None
      if i < 1:
          raise ValueError("Batch index is one-based. Use 1 for first batch, not 0.")
      bf_range = bf_range_calc(index, i, N)
      print(bf_range)
      return build(index=index, bloomfilter_filepaths=bloomfilters, samples=samples,
                   max_memory=max_memory_bytes, lowmem=lowmem, bf_range=bf_range)
  \<close>
  \<^verbatim>\<open>humanfriendly.parse_size\<close> is a parameter, and so is the float ceiling that
  \<^verbatim>\<open>bf_range_calc\<close> needs from \<open>2^53\<close> on.
\<close>

record build_args =
  b_db :: string
  b_bloomfilters :: "string list"
  b_samples :: "string list"
  b_max_memory :: string
  b_lowmem :: bool
  b_i :: int
  b_N :: int

definition build_defaults :: "string \<Rightarrow> string list \<Rightarrow> build_args" where
  "build_defaults db bloomfilters =
     \<lparr>b_db = db, b_bloomfilters = bloomfilters, b_samples = [], b_max_memory = [],
      b_lowmem = False, b_i = 1, b_N = 1\<rparr>"

definition bigsi_build ::
  "(int \<Rightarrow> int \<Rightarrow> py_error + int) \<Rightarrow> (string \<Rightarrow> py_error + int) \<Rightarrow>
   (build_call \<Rightarrow> 'r command) \<Rightarrow> build_args \<Rightarrow> 'r py_value action" where
  "bigsi_build float_ceil parse_size cmd_build a =
     and_then (BIGSI_open (b_db a) None None None) (\<lambda>index.
     and_then (lift (if b_samples a \<noteq> [] then
                       (if length (b_samples a) = length (b_bloomfilters a)
                        then Inr (b_samples a) else Inl AssertionError)
                     else Inr (b_bloomfilters a))) (\<lambda>samples.
     and_then (lift (if b_max_memory a \<noteq> [] then
                       (case parse_size (b_max_memory a) of
                          Inl e \<Rightarrow> Inl e
                        | Inr n \<Rightarrow> Inr (Some n))
                     else Inr None)) (\<lambda>max_memory_bytes.
     if b_i a < 1 then
       raises (ValueError ''Batch index is one-based. Use 1 for first batch, not 0.'')
     else
       and_then (lift (bf_range_calc float_ceil index (b_i a) (b_N a))) (\<lambda>bf_range.
       and_then (print (str_pair bf_range)) (\<lambda>u.
       and_then (call_build cmd_build
                   \<lparr>bc_index = index, bc_bloomfilter_filepaths = b_bloomfilters a,
                    bc_samples = samples, bc_max_memory = max_memory_bytes,
                    bc_lowmem = b_lowmem a, bc_bf_range = bf_range\<rparr>) (\<lambda>r.
       returns (Returned r)))))))"

subsection \<open>merge\<close>

text \<open>
  \<^verbatim>\<open>
  def merge(self, db1, db2):
      BIGSI(db1).merge(BIGSI(db2))
      return {"result": "merged %s into %s." % (db2, db1)}
  \<close>
\<close>

definition bigsi_merge :: "string \<Rightarrow> string \<Rightarrow> 'r py_value action" where
  "bigsi_merge db1 db2 =
     and_then (BIGSI_open db1 None None None) (\<lambda>acceptor.
     and_then (BIGSI_open db2 None None None) (\<lambda>donor.
     and_then (BIGSI_merge acceptor donor) (\<lambda>u.
     returns (PyDict [(''result'', ''merged '' @ db2 @ '' into '' @ db1 @ ''.'')]))))"

subsection \<open>search\<close>

text \<open>
  \<^verbatim>\<open>
  def search(self, db=None, seq=None, seqfile=None, threshold: float_number = 1.0,
             output_format: one_of(("json", "tsv", "fasta")) = "json",
             pipe_out=False, pipe_in=False, cachesize=4, score=False, nproc=4):
      if db is None:
          db = BDB_DB_FILENAME
      bigsi = BIGSI(db, cachesize=cachesize, nproc=nproc, mode="r")
      if output_format in ["tsv", "fasta"]:
          pipe_out = True
      if not pipe_in and (not seq and not seqfile):
          return "-s or -f must be provided"
      if seq == "-" or pipe_in:
          _, fp = tempfile.mkstemp(text=True)
          with open(fp, "w") as openfile:
              for line in sys.stdin:
                  openfile.write(line)
          result = search(seq=None, fasta_file=fp, threshold=threshold, graph=bigsi,
                          output_format=output_format, pipe=pipe_out, score=score)
      else:
          result = search(seq=seq, fasta_file=seqfile, threshold=threshold, graph=bigsi,
                          output_format=output_format, pipe=pipe_out, score=score)
      if not pipe_out:
          return result
  \<close>
  The threshold is a Python float, modelled as a real number. The lines waiting on
  standard input and the path \<^verbatim>\<open>mkstemp\<close> gives are arguments.
\<close>

record search_args =
  s_db :: "string option"
  s_seq :: "string option"
  s_seqfile :: "string option"
  s_threshold :: real
  s_output_format :: string
  s_pipe_out :: bool
  s_pipe_in :: bool
  s_cachesize :: int
  s_score :: bool
  s_nproc :: int

definition search_defaults :: search_args where
  "search_defaults =
     \<lparr>s_db = None, s_seq = None, s_seqfile = None, s_threshold = 1,
      s_output_format = ''json'', s_pipe_out = False, s_pipe_in = False,
      s_cachesize = 4, s_score = False, s_nproc = 4\<rparr>"

definition bigsi_search ::
  "module_globals \<Rightarrow> (search_call \<Rightarrow> 'r command) \<Rightarrow> string list \<Rightarrow> string \<Rightarrow>
   search_args \<Rightarrow> 'r py_value action" where
  "bigsi_search g cmd_search stdin fp a =
     (let db = (case s_db a of None \<Rightarrow> BDB_DB_FILENAME g | Some d \<Rightarrow> d) in
      and_then (BIGSI_open db (Some (s_cachesize a)) (Some (s_nproc a)) (Some ''r'')) (\<lambda>bigsi.
        let pipe_out = (if s_output_format a \<in> set [''tsv'', ''fasta''] then True
                        else s_pipe_out a)
        in
        if \<not> s_pipe_in a \<and> (\<not> truthy (s_seq a) \<and> \<not> truthy (s_seqfile a)) then
          returns (PyStr ''-s or -f must be provided'')
        else
          and_then
            (if s_seq a = Some ''-'' \<or> s_pipe_in a then
               and_then (write_file fp stdin) (\<lambda>u.
               call_search cmd_search
                 \<lparr>sc_seq = None, sc_fasta_file = Some fp, sc_threshold = s_threshold a,
                  sc_graph = bigsi, sc_output_format = s_output_format a,
                  sc_pipe = pipe_out, sc_score = s_score a\<rparr>)
             else
               call_search cmd_search
                 \<lparr>sc_seq = s_seq a, sc_fasta_file = s_seqfile a,
                  sc_threshold = s_threshold a, sc_graph = bigsi,
                  sc_output_format = s_output_format a, sc_pipe = pipe_out,
                  sc_score = s_score a\<rparr>)
            (\<lambda>result. if \<not> pipe_out then returns (Returned result) else returns PyNone)))"

section \<open>The remcdbg front end\<close>

text \<open>
  \<^verbatim>\<open>
  def run_subtool(parser, args):
      if args.command == 'insert':
          from remcdbg.cmds.insert import run
      elif args.command == "query":
          from remcdbg.cmds.query import run
      elif args.command == "stats":
          from remcdbg.cmds.stats import run
      elif args.command == "samples":
          from remcdbg.cmds.samples import run
      elif args.command == "kmers":
          from remcdbg.cmds.kmers import run
      elif args.command == "compress":
          from remcdbg.cmds.compress import run
      elif args.command == "shutdown":
          from remcdbg.cmds.shutdown import run
      elif args.command == "bitcount":
          from remcdbg.cmds.bitcount import run
      try:
          run(parser, args, CONN_CONFIG)
      except redis.exceptions.BusyLoadingError:
          print("Redis is loading the dataset in memory. Please try again when finished. ")
  \<close>
  The \<^verbatim>\<open>run\<close> function each sub-command module exports is the parameter \<open>run_of\<close>.
  With no branch taken the name \<^verbatim>\<open>run\<close> is unbound when it is called.
\<close>

record args =
  command :: string

definition run_subtool ::
  "(cmd_module \<Rightarrow> 'p \<Rightarrow> 'a args_scheme \<Rightarrow> 'c \<Rightarrow> unit action) \<Rightarrow> 'c \<Rightarrow>
   'p \<Rightarrow> 'a args_scheme \<Rightarrow> unit action" where
  "run_subtool run_of CONN_CONFIG parser args w =
     (case (if command args = ''insert'' then Some Cmds_insert
            else if command args = ''query'' then Some Cmds_query
            else if command args = ''stats'' then Some Cmds_stats
            else if command args = ''samples'' then Some Cmds_samples
            else if command args = ''kmers'' then Some Cmds_kmers
            else if command args = ''compress'' then Some Cmds_compress
            else if command args = ''shutdown'' then Some Cmds_shutdown
            else if command args = ''bitcount'' then Some Cmds_bitcount
            else None) of
        None \<Rightarrow> (Inl UnboundLocalError, w)
      | Some chosen \<Rightarrow>
          (case run_of chosen parser args CONN_CONFIG (log_event (Call_run chosen) w) of
             (Inl BusyLoadingError, w') \<Rightarrow>
               print ''Redis is loading the dataset in memory. Please try again when finished. '' w'
           | (Inl e, w') \<Rightarrow> (Inl e, w')
           | (Inr u, w') \<Rightarrow> (Inr (), w')))"

text \<open>
  \<^verbatim>\<open>parser_query.add_argument("--threshold", type=int, default=100)\<close>: the query
  threshold of remcdbg is an integer percentage; a value that is not an integer ends
  the program with exit status 2.
\<close>

definition parser_query_threshold ::
  "(string \<Rightarrow> py_error + int) \<Rightarrow> string option \<Rightarrow> py_error + int" where
  "parser_query_threshold int_of_text given =
     (case given of
        None \<Rightarrow> Inr 100
      | Some v \<Rightarrow> (case int_of_text v of Inl e \<Rightarrow> Inl (SystemExit 2) | Inr t \<Rightarrow> Inr t))"

section \<open>Concrete inputs\<close>

text \<open>
  Two small indexes with the same header, \<open>k = 3\<close>, \<open>m = 2\<close>, \<open>h = 2\<close>, a process state
  holding them, the module constants of an empty environment, a command that does
  nothing, and a float ceiling for operands from \<open>2^53\<close> on that always raises; the
  operations are run on these below.
\<close>

definition acceptor_index :: index_state where
  "acceptor_index =
     \<lparr>hdr_k = 3, hdr_m = 2, hdr_h = 2, rows = [[True], [False]], registry = [Some ''S1'']\<rparr>"

definition donor_index :: index_state where
  "donor_index =
     \<lparr>hdr_k = 3, hdr_m = 2, hdr_h = 2, rows = [[False, True], [True, True]],
      registry = [Some ''S2'', None]\<rparr>"

definition example_world :: world where
  "example_world =
     \<lparr>dbs = [''./db'' \<mapsto> acceptor_index, ''./db2'' \<mapsto> donor_index],
      files = Map.empty, stdout = [], trace = []\<rparr>"

definition example_globals :: module_globals where
  "example_globals =
     \<lparr>BFSIZE = 25000000, NUM_HASHES = 3, STORAGE = ''berkeleydb'',
      BDB_DB_FILENAME = ''./db'', CACHESIZE = 1\<rparr>"

definition idle_command :: "'c \<Rightarrow> unit command" where
  "idle_command c w = ([], Inr ())"

definition raise_overflow :: "int \<Rightarrow> int \<Rightarrow> py_error + int" where
  "raise_overflow a b = Inl OverflowError"

section \<open>Row ranges: the partition computed by \<^verbatim>\<open>bf_range_calc\<close>\<close>

lemma le_div_int:
  fixes x b k :: int
  assumes "0 < b"
  shows "k \<le> x div b \<longleftrightarrow> k * b \<le> x"
proof
  assume "k \<le> x div b"
  then have "k * b \<le> (x div b) * b" using assms by (simp add: mult_right_mono)
  also have "\<dots> \<le> x" using assms
    by (metis div_mult_mod_eq le_add_same_cancel1 pos_mod_sign)
  finally show "k * b \<le> x" .
next
  assume h: "k * b \<le> x"
  have "(k * b) div b \<le> x div b" using h assms by (rule zdiv_mono1)
  moreover have "(k * b) div b = k" using assms by simp
  ultimately show "k \<le> x div b" by simp
qed

lemma range_len:
  fixes m b i :: int
  assumes "1 \<le> b"
  shows "i < (m + b - 1) div b \<longleftrightarrow> i * b < m"
proof -
  have "i < (m + b - 1) div b \<longleftrightarrow> i + 1 \<le> (m + b - 1) div b" by linarith
  also have "\<dots> \<longleftrightarrow> (i + 1) * b \<le> m + b - 1"
    using assms by (simp add: le_div_int)
  also have "\<dots> \<longleftrightarrow> i * b + b \<le> m + b - 1" by (simp add: algebra_simps)
  also have "\<dots> \<longleftrightarrow> i * b < m" by linarith
  finally show ?thesis .
qed

lemma ceil_pos:
  fixes m N :: int
  assumes "1 \<le> m" "1 \<le> N"
  shows "1 \<le> - ((- m) div N)"
proof -
  have "(- m) div N < 0" using assms by (simp add: div_neg_pos_less0)
  then show ?thesis by simp
qed

lemma ceil_covers:
  fixes m N :: int
  assumes "1 \<le> N"
  shows "m \<le> N * (- ((- m) div N))"
proof -
  have "N * ((- m) div N) + (- m) mod N = - m" by simp
  moreover have "0 \<le> (- m) mod N" using assms by simp
  ultimately have "N * ((- m) div N) \<le> - m" by linarith
  then show ?thesis by simp
qed

lemma ceil_exact:
  fixes m N :: int
  assumes "N dvd m"
  shows "N * (- ((- m) div N)) = m"
  using assms by (simp add: dvd_neg_div)

lemma py_range_from_zero:
  assumes "1 \<le> b"
  shows "py_range 0 m b = Inr (map (\<lambda>k. int k * b) [0 ..< nat ((m + b - 1) div b)])"
  using assms by (simp add: py_range_def)

lemma bf_range_calc_returns:
  assumes m: "1 \<le> bloom_filter_size index" and N: "1 \<le> N"
    and mb: "bloom_filter_size index < 2 ^ 53" and Nb: "N < 2 ^ 53" and i: "1 \<le> i"
    and lt: "(i - 1) * (- ((- bloom_filter_size index) div N)) < bloom_filter_size index"
  shows "bf_range_calc fc index i N =
           Inr ((i - 1) * (- ((- bloom_filter_size index) div N)),
                i * (- ((- bloom_filter_size index) div N)))"
proof -
  define m where "m = bloom_filter_size index"
  define b where "b = - ((- m) div N)"
  have b: "1 \<le> b" using m N unfolding b_def m_def by (rule ceil_pos)
  have exact: "ceil_div fc (bloom_filter_size index) N = Inr b"
    using m N mb Nb by (simp add: ceil_div_def b_def m_def)
  have lt': "(i - 1) * b < m" using lt by (simp add: b_def m_def)
  have len: "i - 1 < (m + b - 1) div b" using lt' range_len [OF b, of "i - 1" m] by simp
  have idx: "nat (i - 1) < nat ((m + b - 1) div b)" using len i by simp
  have get: "py_getitem (map (\<lambda>k. int k * b) [0 ..< nat ((m + b - 1) div b)]) (i - 1)
               = Inr ((i - 1) * b)"
    using idx i len by (simp add: py_getitem_def)
  have "bf_range_calc fc index i N = Inr ((i - 1) * b, (i - 1) * b + b)"
    using N b get exact
    by (simp add: bf_range_calc_def py_range_from_zero m_def [symmetric] b_def [symmetric])
  moreover have "(i - 1) * b + b = i * b" by (simp add: algebra_simps)
  ultimately show ?thesis by (simp add: b_def m_def)
qed

lemma bf_range_calc_raises:
  assumes m: "1 \<le> bloom_filter_size index" and N: "1 \<le> N"
    and mb: "bloom_filter_size index < 2 ^ 53" and Nb: "N < 2 ^ 53" and i: "1 \<le> i"
    and ge: "bloom_filter_size index \<le> (i - 1) * (- ((- bloom_filter_size index) div N))"
  shows "bf_range_calc fc index i N = Inl IndexError"
proof -
  define m where "m = bloom_filter_size index"
  define b where "b = - ((- m) div N)"
  have b: "1 \<le> b" using m N unfolding b_def m_def by (rule ceil_pos)
  have exact: "ceil_div fc (bloom_filter_size index) N = Inr b"
    using m N mb Nb by (simp add: ceil_div_def b_def m_def)
  have ge': "m \<le> (i - 1) * b" using ge by (simp add: b_def m_def)
  have len: "\<not> i - 1 < (m + b - 1) div b" using ge' range_len [OF b, of "i - 1" m] by simp
  have get: "py_getitem (map (\<lambda>k. int k * b) [0 ..< nat ((m + b - 1) div b)]) (i - 1)
               = Inl IndexError"
    using i len by (simp add: py_getitem_def)
  show ?thesis
    using N b get exact
    by (simp add: bf_range_calc_def py_range_from_zero m_def [symmetric] b_def [symmetric])
qed

lemma bf_range_calc_cases:
  assumes m: "1 \<le> bloom_filter_size index" and N: "1 \<le> N"
    and mb: "bloom_filter_size index < 2 ^ 53" and Nb: "N < 2 ^ 53" and i: "1 \<le> i"
    and ret: "bf_range_calc fc index i N = Inr (s, e)"
  shows "(i - 1) * (- ((- bloom_filter_size index) div N)) < bloom_filter_size index
         \<and> s = (i - 1) * (- ((- bloom_filter_size index) div N))
         \<and> e = i * (- ((- bloom_filter_size index) div N))"
proof (cases "(i - 1) * (- ((- bloom_filter_size index) div N)) < bloom_filter_size index")
  case True
  then show ?thesis using bf_range_calc_returns [OF m N mb Nb i True] ret by simp
next
  case False
  then have "bloom_filter_size index \<le> (i - 1) * (- ((- bloom_filter_size index) div N))"
    by simp
  then show ?thesis using bf_range_calc_raises [OF m N mb Nb i] ret by simp
qed

lemma interval_index_unique:
  fixes b r i :: int
  assumes "0 < b" "(i - 1) * b \<le> r" "r < i * b"
  shows "i = r div b + 1"
proof -
  have "i - 1 \<le> r div b" using assms(1,2) by (simp add: le_div_int)
  moreover have "\<not> i \<le> r div b" using assms(1,3) by (simp add: le_div_int)
  ultimately show ?thesis by linarith
qed

lemma interval_index_bounds:
  fixes b r :: int
  assumes "0 < b"
  shows "(r div b) * b \<le> r \<and> r < (r div b + 1) * b"
proof -
  have "(r div b) * b \<le> r" using assms le_div_int [of b "r div b" r] by simp
  moreover have "\<not> (r div b + 1) * b \<le> r" using assms le_div_int [of b "r div b + 1" r] by simp
  ultimately show ?thesis by simp
qed

text \<open>
  C1 (amended). Let the Bloom width \<open>m\<close> and the partition count \<open>N\<close> satisfy
  \<open>1 \<le> m < 2^53\<close> and \<open>1 \<le> N < 2^53\<close>, where the float quotient is exact, and let
  \<open>b = ceil(m / N)\<close> be the batch size. For every batch index \<open>1 \<le> i \<le> N\<close> whose start
  \<open>(i - 1) * b\<close> lies below \<open>m\<close>, \<^verbatim>\<open>bf_range_calc\<close> returns the interval
  \<open>((i - 1) * b, i * b)\<close>, with \<open>0 \<le> start < end\<close>; the end is not clipped to \<open>m\<close>.
  Every row of \<open>[0, m)\<close> lies in exactly one of the intervals returned for \<open>i = 1..N\<close>,
  so they cover the full row range without overlap. When \<open>N\<close> divides \<open>m\<close>, all
  \<open>N\<close> calls return and each interval satisfies \<open>0 \<le> start < end \<le> m\<close>.
\<close>

theorem bf_range_calc_partition:
  assumes m: "1 \<le> bloom_filter_size index" and N: "1 \<le> N"
    and mb: "bloom_filter_size index < 2 ^ 53" and Nb: "N < 2 ^ 53"
    and b: "ceil_div fc (bloom_filter_size index) N = Inr b"
  shows "(\<forall>i. 1 \<le> i \<and> i \<le> N \<and> (i - 1) * b < bloom_filter_size index \<longrightarrow>
            bf_range_calc fc index i N = Inr ((i - 1) * b, i * b)
            \<and> 0 \<le> (i - 1) * b \<and> (i - 1) * b < i * b)
       \<and> (\<forall>r. 0 \<le> r \<and> r < bloom_filter_size index \<longrightarrow>
            (\<exists>!i. 1 \<le> i \<and> i \<le> N \<and>
               (\<exists>s e. bf_range_calc fc index i N = Inr (s, e) \<and> s \<le> r \<and> r < e)))
       \<and> (N dvd bloom_filter_size index \<longrightarrow>
            (\<forall>i. 1 \<le> i \<and> i \<le> N \<longrightarrow>
               (\<exists>s e. bf_range_calc fc index i N = Inr (s, e)
                  \<and> 0 \<le> s \<and> s < e \<and> e \<le> bloom_filter_size index)))"
proof -
  define sz where "sz = bloom_filter_size index"
  have b_eq: "b = - ((- sz) div N)" using b m N mb Nb by (simp add: ceil_div_def sz_def)
  have b_pos: "1 \<le> b" using ceil_pos [OF m N] by (simp add: b_eq sz_def)
  have cover: "sz \<le> N * b" using ceil_covers [OF N, of sz] by (simp add: b_eq)
  have ret: "bf_range_calc fc index i N = Inr ((i - 1) * b, i * b)"
    if "1 \<le> i" "(i - 1) * b < sz" for i
    using bf_range_calc_returns [OF m N mb Nb that(1)] that(2) by (simp add: b_eq sz_def)
  have shape: "(i - 1) * b < sz \<and> s = (i - 1) * b \<and> e = i * b"
    if "1 \<le> i" "bf_range_calc fc index i N = Inr (s, e)" for i s e
    using bf_range_calc_cases [OF m N mb Nb that] by (simp add: b_eq sz_def)
  have part1: "\<forall>i. 1 \<le> i \<and> i \<le> N \<and> (i - 1) * b < sz \<longrightarrow>
            bf_range_calc fc index i N = Inr ((i - 1) * b, i * b)
            \<and> 0 \<le> (i - 1) * b \<and> (i - 1) * b < i * b"
  proof (intro allI impI)
    fix i assume h: "1 \<le> i \<and> i \<le> N \<and> (i - 1) * b < sz"
    have "0 \<le> (i - 1) * b" using h b_pos by simp
    moreover have "(i - 1) * b < i * b" using b_pos by (simp add: algebra_simps)
    ultimately show "bf_range_calc fc index i N = Inr ((i - 1) * b, i * b)
            \<and> 0 \<le> (i - 1) * b \<and> (i - 1) * b < i * b"
      using ret h by simp
  qed
  have part2: "\<forall>r. 0 \<le> r \<and> r < sz \<longrightarrow>
            (\<exists>!i. 1 \<le> i \<and> i \<le> N \<and>
               (\<exists>s e. bf_range_calc fc index i N = Inr (s, e) \<and> s \<le> r \<and> r < e))"
  proof (intro allI impI)
    fix r assume r: "0 \<le> r \<and> r < sz"
    define i0 where "i0 = r div b + 1"
    have bnd: "(i0 - 1) * b \<le> r \<and> r < i0 * b"
      using interval_index_bounds [of b r] b_pos by (simp add: i0_def)
    have i0_ge: "1 \<le> i0" using r b_pos by (simp add: i0_def pos_imp_zdiv_nonneg_iff)
    have "r < N * b" using r cover by simp
    then have "\<not> N * b \<le> r" by simp
    then have "\<not> N \<le> r div b" using b_pos le_div_int [of b N r] by simp
    then have i0_le: "i0 \<le> N" by (simp add: i0_def)
    have lt: "(i0 - 1) * b < sz" using bnd r by simp
    show "\<exists>!i. 1 \<le> i \<and> i \<le> N \<and>
               (\<exists>s e. bf_range_calc fc index i N = Inr (s, e) \<and> s \<le> r \<and> r < e)"
    proof (rule ex1I [of _ i0])
      show "1 \<le> i0 \<and> i0 \<le> N \<and>
               (\<exists>s e. bf_range_calc fc index i0 N = Inr (s, e) \<and> s \<le> r \<and> r < e)"
        using i0_ge i0_le ret [OF i0_ge lt] bnd by simp
    next
      fix i assume h: "1 \<le> i \<and> i \<le> N \<and>
               (\<exists>s e. bf_range_calc fc index i N = Inr (s, e) \<and> s \<le> r \<and> r < e)"
      then obtain s e where se: "bf_range_calc fc index i N = Inr (s, e)" "s \<le> r" "r < e"
        by blast
      have "s = (i - 1) * b \<and> e = i * b" using shape [of i s e] h se(1) by simp
      then have "(i - 1) * b \<le> r" "r < i * b" using se by simp_all
      then show "i = i0" using interval_index_unique [of b i r] b_pos by (simp add: i0_def)
    qed
  qed
  have part3: "N dvd sz \<longrightarrow>
            (\<forall>i. 1 \<le> i \<and> i \<le> N \<longrightarrow>
               (\<exists>s e. bf_range_calc fc index i N = Inr (s, e)
                  \<and> 0 \<le> s \<and> s < e \<and> e \<le> sz))"
  proof (intro allI impI)
    fix i assume d: "N dvd sz" and h: "1 \<le> i \<and> i \<le> N"
    have Nb: "N * b = sz" using ceil_exact [OF d] by (simp add: b_eq)
    have "i * b \<le> N * b" using h b_pos by (simp add: mult_right_mono)
    then have e_le: "i * b \<le> sz" using Nb by simp
    have lt: "(i - 1) * b < i * b" using b_pos by (simp add: algebra_simps)
    then have "(i - 1) * b < sz" using e_le by simp
    then have "bf_range_calc fc index i N = Inr ((i - 1) * b, i * b)" using ret h by simp
    moreover have "0 \<le> (i - 1) * b" using h b_pos by simp
    ultimately show "\<exists>s e. bf_range_calc fc index i N = Inr (s, e)
                  \<and> 0 \<le> s \<and> s < e \<and> e \<le> sz"
      using lt e_le by simp
  qed
  show ?thesis using part1 part2 part3 by (simp only: sz_def)
qed

text \<open>
  C1, the amended statement at a width of 10 rows cut into 3 batches of 4: the second
  batch is rows 4 to 8.
\<close>

theorem bf_range_calc_partition_witness:
  "1 \<le> bloom_filter_size \<lparr>db_path = ''db'', open_mode = None, bloom_filter_size = 10,
                            kmer_size = 31\<rparr>
   \<and> bloom_filter_size \<lparr>db_path = ''db'', open_mode = None, bloom_filter_size = 10,
                         kmer_size = 31\<rparr> < 2 ^ 53
   \<and> (1::int) \<le> 3 \<and> (3::int) < 2 ^ 53
   \<and> ceil_div raise_overflow
         (bloom_filter_size \<lparr>db_path = ''db'', open_mode = None, bloom_filter_size = 10,
                             kmer_size = 31\<rparr>) 3 = Inr 4
   \<and> bf_range_calc raise_overflow
         \<lparr>db_path = ''db'', open_mode = None, bloom_filter_size = 10, kmer_size = 31\<rparr> 2 3
       = Inr (4, 8)"
proof -
  let ?ix = "\<lparr>db_path = ''db'', open_mode = None, bloom_filter_size = 10, kmer_size = 31\<rparr>"
  have m: "1 \<le> bloom_filter_size ?ix" by simp
  have mb: "bloom_filter_size ?ix < 2 ^ 53" by simp
  have N: "(1::int) \<le> 3" by simp
  have Nb: "(3::int) < 2 ^ 53" by simp
  have b: "ceil_div raise_overflow (bloom_filter_size ?ix) 3 = Inr 4"
    by (simp add: ceil_div_def)
  have "bf_range_calc raise_overflow ?ix 2 3 = Inr ((2 - 1) * 4, 2 * 4)"
    using bf_range_calc_partition [OF m N mb Nb b] by simp
  then show ?thesis using m mb N Nb b by simp
qed

text \<open>
  C1 as stated fails: with 10 rows and 3 batches the third batch is rows 8 to 12, which
  ends past the width.
\<close>

theorem bf_range_calc_overshoot:
  "(1::int) \<le> 10 \<and> (1::int) \<le> 3 \<and> (3::int) \<le> 3
   \<and> bf_range_calc raise_overflow
         \<lparr>db_path = ''db'', open_mode = None, bloom_filter_size = 10, kmer_size = 31\<rparr> 3 3
       = Inr (8, 12)
   \<and> \<not> (12 \<le> bloom_filter_size \<lparr>db_path = ''db'', open_mode = None, bloom_filter_size = 10,
                                    kmer_size = 31\<rparr>)"
  by (simp add: bf_range_calc_def ceil_div_def py_range_def py_getitem_def)

text \<open>With 5 rows and 4 batches the batch size is 2, so there are only 3 batches and the
  fourth raises.\<close>

lemma bf_range_calc_missing_batch:
  "bf_range_calc raise_overflow
     \<lparr>db_path = ''db'', open_mode = None, bloom_filter_size = 5, kmer_size = 31\<rparr> 4 4
     = Inl IndexError"
  by (simp add: bf_range_calc_def ceil_div_def py_range_def py_getitem_def)

text \<open>Beyond \<open>2^53\<close> the row range is whatever the float ceiling gives.\<close>

lemma bf_range_calc_beyond_doubles:
  "bf_range_calc (\<lambda>a b. Inr (2 ^ 53))
     \<lparr>db_path = ''db'', open_mode = None, bloom_filter_size = 2 ^ 53 + 1, kmer_size = 31\<rparr> 1 1
     = Inr (0, 2 ^ 53)"
  by (simp add: bf_range_calc_def ceil_div_def py_range_def py_getitem_def)

section \<open>Sequencing, opening and read-only handles\<close>

lemma dbs_log_event [simp]: "dbs (log_event ev w) = dbs w"
  by (simp add: log_event_def)

lemma trace_log_event [simp]: "trace (log_event ev w) = trace w @ [ev]"
  by (simp add: log_event_def)

lemma open_then:
  "dbs w db = Some st \<Longrightarrow>
   and_then (BIGSI_open db cs np mode) k w =
     k \<lparr>db_path = db, open_mode = mode, bloom_filter_size = hdr_m st, kmer_size = hdr_k st\<rparr>
       (log_event (Open_BIGSI db cs np mode) w)"
  by (simp add: and_then_def BIGSI_open_def)

lemma open_fails:
  "dbs w db = None \<Longrightarrow>
   and_then (BIGSI_open db cs np mode) k w =
     (Inl (ValueError ''Cannot find a BIGSI''), log_event (Open_BIGSI db cs np mode) w)"
  by (simp add: and_then_def BIGSI_open_def)

lemma snd_and_then_pure:
  assumes "\<And>x w'. snd (g x w') = w'"
  shows "snd (and_then f g w) = snd (f w)"
  using assms by (simp add: and_then_def split: prod.splits sum.splits)

lemma snd_finish [simp]:
  "snd ((if b then returns x else returns y) w) = w"
  by (simp add: returns_def)

lemma snd_and_then_returns:
  "snd (and_then f (\<lambda>r. returns (k r)) w) = snd (f w)"
  by (rule snd_and_then_pure) (simp add: returns_def)

lemma finish_world:
  "snd (and_then f (\<lambda>result. if p then returns (Returned result) else returns PyNone) w)
     = snd (f w)"
  by (rule snd_and_then_pure) simp

lemma finish_value:
  "fst (and_then f (\<lambda>result. if p then returns (Returned result) else returns PyNone) w)
     = (case fst (f w) of Inl e \<Rightarrow> Inl e
        | Inr r \<Rightarrow> Inr (if p then Returned r else PyNone))"
  by (simp add: and_then_def returns_def split: prod.splits sum.splits)

lemma exec_ops_read_only: "read_only h \<Longrightarrow> snd (exec_ops h ops st) = st"
proof (induction ops arbitrary: st)
  case Nil
  then show ?case by simp
next
  case (Cons op ops)
  show ?case
  proof (cases "writes op")
    case True
    then show ?thesis using Cons.prems by (simp add: exec_op_def)
  next
    case False
    then have "apply_op op st = Inr st" by (cases op) simp_all
    then show ?thesis using False Cons by (simp add: exec_op_def)
  qed
qed

lemma run_command_trace [simp]: "trace (snd (run_command h prog w)) = trace w"
  by (simp add: run_command_def split: option.splits prod.splits)

lemma run_command_read_only:
  assumes "read_only h"
  shows "dbs (snd (run_command h prog w)) = dbs w"
proof (cases "dbs w (db_path h)")
  case None
  then show ?thesis by (simp add: run_command_def)
next
  case (Some st)
  have "snd (exec_ops h (fst (prog w)) st) = st" using assms by (rule exec_ops_read_only)
  then show ?thesis using Some
    by (auto simp add: run_command_def split: prod.splits option.splits)
qed

lemma call_search_world:
  "trace (snd (call_search cmd c w)) = trace w @ [Call_search c]"
  "read_only (sc_graph c) \<Longrightarrow> dbs (snd (call_search cmd c w)) = dbs w"
  by (simp_all add: call_search_def run_command_read_only)

lemma call_search_dbs:
  "open_mode (sc_graph c) = Some ''r'' \<Longrightarrow> dbs (snd (call_search cmd c w)) = dbs w"
  by (simp add: call_search_world read_only_def)

lemma call_build_trace:
  "trace (snd (call_build cmd c w)) = trace w @ [Call_build c]"
  by (simp add: call_build_def)

section \<open>search\<close>

lemma search_missing_input:
  assumes "db = (case s_db a of None \<Rightarrow> BDB_DB_FILENAME g | Some d \<Rightarrow> d)"
    and "dbs w db = Some st"
    and "\<not> s_pipe_in a" "\<not> truthy (s_seq a)" "\<not> truthy (s_seqfile a)"
  shows "bigsi_search g cmd stdin fp a w =
           (Inr (PyStr ''-s or -f must be provided''),
            log_event (Open_BIGSI db (Some (s_cachesize a)) (Some (s_nproc a)) (Some ''r'')) w)"
  using assms(3-) unfolding bigsi_search_def assms(1)[symmetric] Let_def
  by (simp add: open_then [OF assms(2)] returns_def)

lemma search_from_stdin:
  assumes "db = (case s_db a of None \<Rightarrow> BDB_DB_FILENAME g | Some d \<Rightarrow> d)"
    and "dbs w db = Some st"
    and "s_seq a = Some ''-'' \<or> s_pipe_in a"
  shows "bigsi_search g cmd stdin fp a w =
           and_then
             (call_search cmd
                \<lparr>sc_seq = None, sc_fasta_file = Some fp, sc_threshold = s_threshold a,
                 sc_graph = \<lparr>db_path = db, open_mode = Some ''r'',
                              bloom_filter_size = hdr_m st, kmer_size = hdr_k st\<rparr>,
                 sc_output_format = s_output_format a,
                 sc_pipe = (if s_output_format a \<in> set [''tsv'', ''fasta''] then True
                            else s_pipe_out a),
                 sc_score = s_score a\<rparr>)
             (\<lambda>result. if \<not> (if s_output_format a \<in> set [''tsv'', ''fasta''] then True
                                else s_pipe_out a)
                        then returns (Returned result) else returns PyNone)
             ((log_event (Open_BIGSI db (Some (s_cachesize a)) (Some (s_nproc a)) (Some ''r'')) w)
                \<lparr>files := (files w)(fp \<mapsto> stdin)\<rparr>)"
proof -
  have inp: "\<not> (\<not> s_pipe_in a \<and> (\<not> truthy (s_seq a) \<and> \<not> truthy (s_seqfile a)))"
    using assms(3) by (auto simp add: truthy_def)
  show ?thesis
    unfolding bigsi_search_def assms(1)[symmetric] Let_def
    by (simp only: open_then [OF assms(2)] inp if_False assms(3) if_True)
       (simp add: and_then_def write_file_def log_event_def)
qed

lemma search_direct:
  assumes "db = (case s_db a of None \<Rightarrow> BDB_DB_FILENAME g | Some d \<Rightarrow> d)"
    and "dbs w db = Some st"
    and "\<not> s_pipe_in a" "s_seq a \<noteq> Some ''-''" "truthy (s_seq a) \<or> truthy (s_seqfile a)"
  shows "bigsi_search g cmd stdin fp a w =
           and_then
             (call_search cmd
                \<lparr>sc_seq = s_seq a, sc_fasta_file = s_seqfile a, sc_threshold = s_threshold a,
                 sc_graph = \<lparr>db_path = db, open_mode = Some ''r'',
                              bloom_filter_size = hdr_m st, kmer_size = hdr_k st\<rparr>,
                 sc_output_format = s_output_format a,
                 sc_pipe = (if s_output_format a \<in> set [''tsv'', ''fasta''] then True
                            else s_pipe_out a),
                 sc_score = s_score a\<rparr>)
             (\<lambda>result. if \<not> (if s_output_format a \<in> set [''tsv'', ''fasta''] then True
                                else s_pipe_out a)
                        then returns (Returned result) else returns PyNone)
             (log_event (Open_BIGSI db (Some (s_cachesize a)) (Some (s_nproc a)) (Some ''r'')) w)"
proof -
  have inp: "\<not> (\<not> s_pipe_in a \<and> (\<not> truthy (s_seq a) \<and> \<not> truthy (s_seqfile a)))"
    using assms(5) by auto
  have br: "\<not> (s_seq a = Some ''-'' \<or> s_pipe_in a)" using assms(3,4) by simp
  show ?thesis
    unfolding bigsi_search_def assms(1)[symmetric] Let_def
    by (simp only: open_then [OF assms(2)] inp br if_False)
qed

lemma search_unopened:
  assumes "db = (case s_db a of None \<Rightarrow> BDB_DB_FILENAME g | Some d \<Rightarrow> d)"
    and "dbs w db = None"
  shows "bigsi_search g cmd stdin fp a w =
           (Inl (ValueError ''Cannot find a BIGSI''),
            log_event (Open_BIGSI db (Some (s_cachesize a)) (Some (s_nproc a)) (Some ''r'')) w)"
  unfolding bigsi_search_def assms(1)[symmetric] Let_def
  by (simp only: open_fails [OF assms(2)])

text \<open>
  Every run of \<^verbatim>\<open>search\<close> takes one of three courses once the database path is fixed: the
  index cannot be opened; the input is missing and the message is returned; or exactly
  one query is issued.
\<close>

lemma search_outcome:
  fixes g cmd stdin fp a w
  defines "db \<equiv> (case s_db a of None \<Rightarrow> BDB_DB_FILENAME g | Some d \<Rightarrow> d)"
  defines "ev0 \<equiv> Open_BIGSI db (Some (s_cachesize a)) (Some (s_nproc a)) (Some ''r'')"
  defines "missing \<equiv> \<not> s_pipe_in a \<and> \<not> truthy (s_seq a) \<and> \<not> truthy (s_seqfile a)"
  defines "pipe_out \<equiv> s_output_format a = ''tsv'' \<or> s_output_format a = ''fasta'' \<or> s_pipe_out a"
  defines "R \<equiv> bigsi_search g cmd stdin fp a w"
  shows "dbs (snd R) = dbs w \<and>
         ((dbs w db = None \<and> R = (Inl (ValueError ''Cannot find a BIGSI''), log_event ev0 w))
        \<or> (dbs w db \<noteq> None \<and> missing
             \<and> R = (Inr (PyStr ''-s or -f must be provided''), log_event ev0 w))
        \<or> (dbs w db \<noteq> None \<and> \<not> missing
             \<and> (\<exists>c. trace (snd R) = trace w @ [ev0, Call_search c]
                    \<and> sc_threshold c = s_threshold a
                    \<and> sc_pipe c = pipe_out
                    \<and> open_mode (sc_graph c) = Some ''r''
                    \<and> db_path (sc_graph c) = db
                    \<and> ((\<exists>e. fst R = Inl e)
                         \<or> (\<exists>r. fst R = Inr (if pipe_out then PyNone else Returned r))))))"
proof (cases "dbs w db")
  case None
  have "R = (Inl (ValueError ''Cannot find a BIGSI''), log_event ev0 w)"
    unfolding R_def ev0_def by (rule search_unopened [OF _ None]) (simp add: db_def)
  then show ?thesis using None by simp
next
  case (Some st)
  have dbeq: "db = (case s_db a of None \<Rightarrow> BDB_DB_FILENAME g | Some d \<Rightarrow> d)"
    by (simp add: db_def)
  consider (missing) "\<not> s_pipe_in a" "\<not> truthy (s_seq a)" "\<not> truthy (s_seqfile a)"
    | (piped) "s_seq a = Some ''-'' \<or> s_pipe_in a"
    | (direct) "\<not> s_pipe_in a" "s_seq a \<noteq> Some ''-''" "truthy (s_seq a) \<or> truthy (s_seqfile a)"
    by blast
  then show ?thesis
  proof cases
    case missing
    have "R = (Inr (PyStr ''-s or -f must be provided''), log_event ev0 w)"
      unfolding R_def ev0_def by (rule search_missing_input [OF dbeq Some missing])
    then show ?thesis using Some missing by (simp add: missing_def)
  next
    case piped
    define c where "c = \<lparr>sc_seq = None, sc_fasta_file = Some fp,
        sc_threshold = s_threshold a,
        sc_graph = \<lparr>db_path = db, open_mode = Some ''r'',
                     bloom_filter_size = hdr_m st, kmer_size = hdr_k st\<rparr>,
        sc_output_format = s_output_format a,
        sc_pipe = (if s_output_format a \<in> set [''tsv'', ''fasta''] then True
                   else s_pipe_out a),
        sc_score = s_score a\<rparr>"
    define w1 where "w1 = (log_event ev0 w)\<lparr>files := (files w)(fp \<mapsto> stdin)\<rparr>"
    have nm: "\<not> missing" using piped by (auto simp add: missing_def truthy_def)
    have po: "(if s_output_format a \<in> set [''tsv'', ''fasta''] then True else s_pipe_out a)
                = pipe_out" by (auto simp add: pipe_out_def)
    have Req: "R = and_then (call_search cmd c)
                     (\<lambda>result. if \<not> pipe_out then returns (Returned result) else returns PyNone) w1"
      unfolding R_def c_def w1_def ev0_def po [symmetric]
      by (rule search_from_stdin [OF dbeq Some piped])
    have mode: "open_mode (sc_graph c) = Some ''r''" by (simp add: c_def)
    have "snd R = snd (call_search cmd c w1)" unfolding Req by (rule finish_world)
    then have world: "dbs (snd R) = dbs w" "trace (snd R) = trace w @ [ev0, Call_search c]"
      using mode by (simp_all add: call_search_dbs call_search_world w1_def log_event_def)
    have "fst R = (case fst (call_search cmd c w1) of Inl e \<Rightarrow> Inl e
                   | Inr r \<Rightarrow> Inr (if \<not> pipe_out then Returned r else PyNone))"
      unfolding Req by (rule finish_value)
    then have val: "(\<exists>e. fst R = Inl e) \<or> (\<exists>r. fst R = Inr (if pipe_out then PyNone else Returned r))"
      by (cases "fst (call_search cmd c w1)") auto
    have "sc_threshold c = s_threshold a \<and> sc_pipe c = pipe_out \<and> db_path (sc_graph c) = db"
      using po by (simp add: c_def)
    then show ?thesis using Some nm world val mode by blast
  next
    case direct
    define c where "c = \<lparr>sc_seq = s_seq a, sc_fasta_file = s_seqfile a,
        sc_threshold = s_threshold a,
        sc_graph = \<lparr>db_path = db, open_mode = Some ''r'',
                     bloom_filter_size = hdr_m st, kmer_size = hdr_k st\<rparr>,
        sc_output_format = s_output_format a,
        sc_pipe = (if s_output_format a \<in> set [''tsv'', ''fasta''] then True
                   else s_pipe_out a),
        sc_score = s_score a\<rparr>"
    define w1 where "w1 = log_event ev0 w"
    have nm: "\<not> missing" using direct by (auto simp add: missing_def)
    have po: "(if s_output_format a \<in> set [''tsv'', ''fasta''] then True else s_pipe_out a)
                = pipe_out" by (auto simp add: pipe_out_def)
    have Req: "R = and_then (call_search cmd c)
                     (\<lambda>result. if \<not> pipe_out then returns (Returned result) else returns PyNone) w1"
      unfolding R_def c_def w1_def ev0_def po [symmetric]
      by (rule search_direct [OF dbeq Some direct])
    have mode: "open_mode (sc_graph c) = Some ''r''" by (simp add: c_def)
    have "snd R = snd (call_search cmd c w1)" unfolding Req by (rule finish_world)
    then have world: "dbs (snd R) = dbs w" "trace (snd R) = trace w @ [ev0, Call_search c]"
      using mode by (simp_all add: call_search_dbs call_search_world w1_def)
    have "fst R = (case fst (call_search cmd c w1) of Inl e \<Rightarrow> Inl e
                   | Inr r \<Rightarrow> Inr (if \<not> pipe_out then Returned r else PyNone))"
      unfolding Req by (rule finish_value)
    then have val: "(\<exists>e. fst R = Inl e) \<or> (\<exists>r. fst R = Inr (if pipe_out then PyNone else Returned r))"
      by (cases "fst (call_search cmd c w1)") auto
    have "sc_threshold c = s_threshold a \<and> sc_pipe c = pipe_out \<and> db_path (sc_graph c) = db"
      using po by (simp add: c_def)
    then show ?thesis using Some nm world val mode by blast
  qed
qed

lemmas run_defs = bigsi_search_def example_globals_def search_defaults_def and_then_def
  BIGSI_open_def truthy_def call_search_def run_command_def log_event_def idle_command_def
  returns_def acceptor_index_def donor_index_def example_world_def write_file_def

text \<open>
  C5. Every run of \<^verbatim>\<open>search\<close> opens the index with mode \<^verbatim>\<open>"r"\<close>, and that is the first
  thing it does; any query that follows goes through this read-only handle. The indexes
  on disk (row store, sample registry and header of each) are the same after the run as
  before it, whatever the search command does and however the run ends.
\<close>

theorem search_opens_read_only:
  "dbs (snd (bigsi_search g cmd stdin fp a w)) = dbs w
   \<and> (\<exists>evs. trace (snd (bigsi_search g cmd stdin fp a w)) =
              trace w @ Open_BIGSI (case s_db a of None \<Rightarrow> BDB_DB_FILENAME g | Some d \<Rightarrow> d)
                          (Some (s_cachesize a)) (Some (s_nproc a)) (Some ''r'') # evs
          \<and> (\<forall>ev \<in> set evs. \<exists>c. ev = Call_search c \<and> open_mode (sc_graph c) = Some ''r''))"
proof -
  note so = search_outcome [where a = a and w = w and g = g and cmd = cmd
      and stdin = stdin and fp = fp]
  define ev0 where "ev0 = Open_BIGSI (case s_db a of None \<Rightarrow> BDB_DB_FILENAME g | Some d \<Rightarrow> d)
                          (Some (s_cachesize a)) (Some (s_nproc a)) (Some ''r'')"
  define R where "R = bigsi_search g cmd stdin fp a w"
  have frame: "dbs (snd R) = dbs w" using so by (simp add: R_def)
  have "trace (snd R) = trace w @ ev0 # []
        \<or> (\<exists>c. trace (snd R) = trace w @ ev0 # [Call_search c]
               \<and> open_mode (sc_graph c) = Some ''r'')"
    using so unfolding R_def [symmetric] ev0_def [symmetric] by auto
  then have "\<exists>evs. trace (snd R) = trace w @ ev0 # evs
          \<and> (\<forall>ev \<in> set evs. \<exists>c. ev = Call_search c \<and> open_mode (sc_graph c) = Some ''r'')"
  proof
    assume "trace (snd R) = trace w @ ev0 # []"
    then show ?thesis by (intro exI [of _ "[]"]) simp
  next
    assume "\<exists>c. trace (snd R) = trace w @ ev0 # [Call_search c]
               \<and> open_mode (sc_graph c) = Some ''r''"
    then obtain c where "trace (snd R) = trace w @ ev0 # [Call_search c]"
      "open_mode (sc_graph c) = Some ''r''" by blast
    then show ?thesis by (intro exI [of _ "[Call_search c]"]) simp
  qed
  then show ?thesis using frame by (simp add: R_def ev0_def)
qed

text \<open>C5 on a concrete run: a JSON search for \<^verbatim>\<open>ACGT\<close> in the index at \<^verbatim>\<open>./db\<close>.\<close>

theorem search_opens_read_only_witness:
  "dbs (snd (bigsi_search example_globals idle_command [] ''/tmp/q''
               (search_defaults\<lparr>s_seq := Some ''ACGT''\<rparr>) example_world)) = dbs example_world
   \<and> trace (snd (bigsi_search example_globals idle_command [] ''/tmp/q''
               (search_defaults\<lparr>s_seq := Some ''ACGT''\<rparr>) example_world)) =
       [Open_BIGSI ''./db'' (Some 4) (Some 4) (Some ''r''),
        Call_search \<lparr>sc_seq = Some ''ACGT'', sc_fasta_file = None, sc_threshold = 1,
          sc_graph = \<lparr>db_path = ''./db'', open_mode = Some ''r'', bloom_filter_size = 2,
                       kmer_size = 3\<rparr>,
          sc_output_format = ''json'', sc_pipe = False, sc_score = False\<rparr>]"
proof -
  have "dbs (snd (bigsi_search example_globals idle_command [] ''/tmp/q''
               (search_defaults\<lparr>s_seq := Some ''ACGT''\<rparr>) example_world)) = dbs example_world"
    using search_opens_read_only [where g = example_globals and cmd = idle_command and stdin = "[]"
        and fp = "''/tmp/q''" and a = "search_defaults\<lparr>s_seq := Some ''ACGT''\<rparr>"
        and w = example_world]
    by (rule conjunct1)
  moreover have "trace (snd (bigsi_search example_globals idle_command [] ''/tmp/q''
               (search_defaults\<lparr>s_seq := Some ''ACGT''\<rparr>) example_world)) =
       [Open_BIGSI ''./db'' (Some 4) (Some 4) (Some ''r''),
        Call_search \<lparr>sc_seq = Some ''ACGT'', sc_fasta_file = None, sc_threshold = 1,
          sc_graph = \<lparr>db_path = ''./db'', open_mode = Some ''r'', bloom_filter_size = 2,
                       kmer_size = 3\<rparr>,
          sc_output_format = ''json'', sc_pipe = False, sc_score = False\<rparr>]"
    by (simp add: run_defs)
  ultimately show ?thesis by (rule conjI)
qed

text \<open>
  C9 (amended). With output format \<^verbatim>\<open>tsv\<close> or \<^verbatim>\<open>fasta\<close>, every query is issued with
  \<^verbatim>\<open>pipe\<close> true, and a run that has its input (\<^verbatim>\<open>pipe_in\<close>, a sequence or a sequence
  file) and returns normally returns \<^verbatim>\<open>None\<close>. When the index opens, \<^verbatim>\<open>pipe_in\<close> is false
  and neither a sequence nor a sequence file is given, the message text
  \<^verbatim>\<open>"-s or -f must be provided"\<close> is returned, whatever the output format. The value of
  the search command is returned only when \<^verbatim>\<open>pipe_out\<close> is false and the format is
  neither \<^verbatim>\<open>tsv\<close> nor \<^verbatim>\<open>fasta\<close>.
\<close>

theorem search_piped_formats_return_none:
  "(s_output_format a = ''tsv'' \<or> s_output_format a = ''fasta'' \<longrightarrow>
      (\<forall>c. Call_search c \<in> set (trace (snd (bigsi_search g cmd stdin fp a w)))
            \<and> Call_search c \<notin> set (trace w) \<longrightarrow> sc_pipe c)
      \<and> (\<forall>v. (s_pipe_in a \<or> truthy (s_seq a) \<or> truthy (s_seqfile a))
            \<and> fst (bigsi_search g cmd stdin fp a w) = Inr v \<longrightarrow> v = PyNone))
   \<and> (dbs w (case s_db a of None \<Rightarrow> BDB_DB_FILENAME g | Some d \<Rightarrow> d) \<noteq> None
        \<and> \<not> s_pipe_in a \<and> \<not> truthy (s_seq a) \<and> \<not> truthy (s_seqfile a) \<longrightarrow>
        bigsi_search g cmd stdin fp a w =
          (Inr (PyStr ''-s or -f must be provided''),
           log_event (Open_BIGSI (case s_db a of None \<Rightarrow> BDB_DB_FILENAME g | Some d \<Rightarrow> d)
                        (Some (s_cachesize a)) (Some (s_nproc a)) (Some ''r'')) w))
   \<and> (\<forall>r. fst (bigsi_search g cmd stdin fp a w) = Inr (Returned r) \<longrightarrow>
          \<not> s_pipe_out a \<and> s_output_format a \<noteq> ''tsv'' \<and> s_output_format a \<noteq> ''fasta'')"
proof -
  note so = search_outcome [where a = a and w = w and g = g and cmd = cmd
      and stdin = stdin and fp = fp]
  define R where "R = bigsi_search g cmd stdin fp a w"
  define ev0 where "ev0 = Open_BIGSI (case s_db a of None \<Rightarrow> BDB_DB_FILENAME g | Some d \<Rightarrow> d)
                          (Some (s_cachesize a)) (Some (s_nproc a)) (Some ''r'')"
  note so' = so [unfolded R_def [symmetric] ev0_def [symmetric]]
  have tr: "trace (snd R) = trace w @ [ev0]
            \<or> (\<exists>c. trace (snd R) = trace w @ [ev0, Call_search c]
                  \<and> sc_pipe c = (s_output_format a = ''tsv'' \<or> s_output_format a = ''fasta''
                                  \<or> s_pipe_out a))"
    using so' by auto
  have p1: "\<forall>c. Call_search c \<in> set (trace (snd R)) \<and> Call_search c \<notin> set (trace w)
              \<longrightarrow> sc_pipe c"
    if fmt: "s_output_format a = ''tsv'' \<or> s_output_format a = ''fasta''"
    using tr fmt by (auto simp add: ev0_def)
  have p2: "v = PyNone"
    if fmt: "s_output_format a = ''tsv'' \<or> s_output_format a = ''fasta''"
      and inp: "s_pipe_in a \<or> truthy (s_seq a) \<or> truthy (s_seqfile a)"
      and ret: "fst R = Inr v" for v
    using so' fmt inp ret by auto
  have p3: "\<not> s_pipe_out a \<and> s_output_format a \<noteq> ''tsv'' \<and> s_output_format a \<noteq> ''fasta''"
    if ret: "fst R = Inr (Returned r)" for r
    using so' ret by (auto split: if_splits)
  have p4: "R = (Inr (PyStr ''-s or -f must be provided''), log_event ev0 w)"
    if "dbs w (case s_db a of None \<Rightarrow> BDB_DB_FILENAME g | Some d \<Rightarrow> d) \<noteq> None"
      and "\<not> s_pipe_in a" "\<not> truthy (s_seq a)" "\<not> truthy (s_seqfile a)"
    using so' that by auto
  show ?thesis using p1 p2 p3 p4 unfolding R_def ev0_def by blast
qed

text \<open>C9 on concrete runs: a \<^verbatim>\<open>tsv\<close> search returns \<^verbatim>\<open>None\<close>, a \<^verbatim>\<open>tsv\<close> search without
  input returns the message, and a JSON search returns the value of the search
  command.\<close>

theorem search_piped_formats_return_none_witness:
  "s_output_format (search_defaults\<lparr>s_seq := Some ''ACGT'', s_output_format := ''tsv''\<rparr>) = ''tsv''
   \<and> truthy (s_seq (search_defaults\<lparr>s_seq := Some ''ACGT'', s_output_format := ''tsv''\<rparr>))
   \<and> (\<exists>c w'. bigsi_search example_globals idle_command [] ''/tmp/q''
                (search_defaults\<lparr>s_seq := Some ''ACGT'', s_output_format := ''tsv''\<rparr>)
                example_world = (Inr PyNone, w')
             \<and> trace w' = [Open_BIGSI ''./db'' (Some 4) (Some 4) (Some ''r''), Call_search c]
             \<and> sc_pipe c)
   \<and> bigsi_search example_globals idle_command [] ''/tmp/q''
        (search_defaults\<lparr>s_output_format := ''fasta''\<rparr>) example_world
       = (Inr (PyStr ''-s or -f must be provided''),
          log_event (Open_BIGSI ''./db'' (Some 4) (Some 4) (Some ''r'')) example_world)
   \<and> fst (bigsi_search example_globals idle_command [] ''/tmp/q''
            (search_defaults\<lparr>s_seq := Some ''ACGT''\<rparr>) example_world)
       = Inr (Returned ())
   \<and> \<not> s_pipe_out (search_defaults\<lparr>s_seq := Some ''ACGT''\<rparr>)"
proof -
  let ?a = "search_defaults\<lparr>s_seq := Some ''ACGT'', s_output_format := ''tsv''\<rparr>"
  let ?b = "search_defaults\<lparr>s_seq := Some ''ACGT''\<rparr>"
  let ?m = "search_defaults\<lparr>s_output_format := ''fasta''\<rparr>"
  let ?c = "\<lparr>sc_seq = Some ''ACGT'', sc_fasta_file = None, sc_threshold = 1,
             sc_graph = \<lparr>db_path = ''./db'', open_mode = Some ''r'', bloom_filter_size = 2,
                          kmer_size = 3\<rparr>,
             sc_output_format = ''tsv'', sc_pipe = True, sc_score = False\<rparr>"
  define Ra where "Ra = bigsi_search example_globals idle_command [] ''/tmp/q'' ?a example_world"
  have fmt: "s_output_format ?a = ''tsv''" by simp
  have inp: "truthy (s_seq ?a)" by (simp add: truthy_def)
  have tr: "trace (snd Ra) = [Open_BIGSI ''./db'' (Some 4) (Some 4) (Some ''r''), Call_search ?c]"
    unfolding Ra_def by (simp add: run_defs)
  have new: "Call_search ?c \<in> set (trace (snd Ra)) \<and> Call_search ?c \<notin> set (trace example_world)"
    using tr by (simp add: example_world_def)
  obtain v where v: "fst Ra = Inr v" unfolding Ra_def by (simp add: run_defs)
  note t = search_piped_formats_return_none [where a = ?a and g = example_globals
      and cmd = idle_command and stdin = "[]" and fp = "''/tmp/q''" and w = example_world,
      folded Ra_def]
  have none: "v = PyNone" using t fmt inp v by blast
  have piped: "sc_pipe ?c" using t fmt new by blast
  have "Ra = (Inr PyNone, snd Ra)" using v none by (simp add: prod_eq_iff)
  then have first: "\<exists>c w'. Ra = (Inr PyNone, w')
             \<and> trace w' = [Open_BIGSI ''./db'' (Some 4) (Some 4) (Some ''r''), Call_search c]
             \<and> sc_pipe c"
    using tr piped by blast
  have mdb: "dbs example_world (case s_db ?m of None \<Rightarrow> BDB_DB_FILENAME example_globals
                                 | Some d \<Rightarrow> d) \<noteq> None"
    by (simp add: search_defaults_def example_globals_def example_world_def)
  have mi: "\<not> s_pipe_in ?m \<and> \<not> truthy (s_seq ?m) \<and> \<not> truthy (s_seqfile ?m)"
    by (simp add: search_defaults_def truthy_def)
  have "bigsi_search example_globals idle_command [] ''/tmp/q'' ?m example_world
       = (Inr (PyStr ''-s or -f must be provided''),
          log_event (Open_BIGSI (case s_db ?m of None \<Rightarrow> BDB_DB_FILENAME example_globals
                                 | Some d \<Rightarrow> d)
                       (Some (s_cachesize ?m)) (Some (s_nproc ?m)) (Some ''r'')) example_world)"
    by (rule search_piped_formats_return_none [where a = ?m and g = example_globals
          and cmd = idle_command and stdin = "[]" and fp = "''/tmp/q''" and w = example_world,
          THEN conjunct2, THEN conjunct1, THEN mp])
       (intro conjI mdb mi [THEN conjunct1] mi [THEN conjunct2, THEN conjunct1]
          mi [THEN conjunct2, THEN conjunct2])
  then have msg: "bigsi_search example_globals idle_command [] ''/tmp/q'' ?m example_world
       = (Inr (PyStr ''-s or -f must be provided''),
          log_event (Open_BIGSI ''./db'' (Some 4) (Some 4) (Some ''r'')) example_world)"
    by (simp add: search_defaults_def example_globals_def)
  have retb: "fst (bigsi_search example_globals idle_command [] ''/tmp/q'' ?b example_world)
               = Inr (Returned ())"
    by (simp add: run_defs)
  have "\<not> s_pipe_out ?b"
    using search_piped_formats_return_none [where a = ?b and g = example_globals
        and cmd = idle_command and stdin = "[]" and fp = "''/tmp/q''" and w = example_world] retb
    by blast
  then show ?thesis using fmt inp first msg retb unfolding Ra_def by blast
qed

text \<open>
  C9 as stated fails: with format \<^verbatim>\<open>tsv\<close> and neither a sequence nor a sequence file,
  \<^verbatim>\<open>search\<close> returns the message text, not \<^verbatim>\<open>None\<close>.
\<close>

theorem search_tsv_returns_message:
  "s_output_format (search_defaults\<lparr>s_output_format := ''tsv''\<rparr>) = ''tsv''
   \<and> fst (bigsi_search example_globals idle_command [] ''/tmp/q''
            (search_defaults\<lparr>s_output_format := ''tsv''\<rparr>) example_world)
       = Inr (PyStr ''-s or -f must be provided'')
   \<and> PyStr ''-s or -f must be provided'' \<noteq> (PyNone :: unit py_value)"
  by (simp add: run_defs)

text \<open>
  C2 (amended). The threshold of \<^verbatim>\<open>search\<close> defaults to \<open>1\<close>, and whatever value the caller
  gives is handed to the search command unchanged: every query a run issues carries the
  caller's threshold, and a run that opens the index and has its input issues a query,
  for any real threshold. No range is checked. In remcdbg the query threshold is an
  integer percentage whose default is \<open>100\<close>.
\<close>

theorem search_threshold_unchecked:
  "s_threshold search_defaults = 1
   \<and> (\<forall>c. Call_search c \<in> set (trace (snd (bigsi_search g cmd stdin fp a w)))
          \<and> Call_search c \<notin> set (trace w) \<longrightarrow> sc_threshold c = s_threshold a)
   \<and> (dbs w (case s_db a of None \<Rightarrow> BDB_DB_FILENAME g | Some d \<Rightarrow> d) \<noteq> None
        \<and> (s_pipe_in a \<or> truthy (s_seq a) \<or> truthy (s_seqfile a)) \<longrightarrow>
        (\<exists>c. Call_search c \<in> set (trace (snd (bigsi_search g cmd stdin fp a w)))
             \<and> sc_threshold c = s_threshold a))
   \<and> parser_query_threshold int_of_text None = Inr 100"
proof -
  note so = search_outcome [where a = a and w = w and g = g and cmd = cmd
      and stdin = stdin and fp = fp]
  define R where "R = bigsi_search g cmd stdin fp a w"
  define ev0 where "ev0 = Open_BIGSI (case s_db a of None \<Rightarrow> BDB_DB_FILENAME g | Some d \<Rightarrow> d)
                          (Some (s_cachesize a)) (Some (s_nproc a)) (Some ''r'')"
  note so' = so [unfolded R_def [symmetric] ev0_def [symmetric]]
  have tr: "trace (snd R) = trace w @ [ev0]
            \<or> (\<exists>c. trace (snd R) = trace w @ [ev0, Call_search c]
                  \<and> sc_threshold c = s_threshold a)"
    using so' by auto
  have p1: "\<forall>c. Call_search c \<in> set (trace (snd R)) \<and> Call_search c \<notin> set (trace w)
              \<longrightarrow> sc_threshold c = s_threshold a"
    using tr by (auto simp add: ev0_def)
  have p2: "\<exists>c. Call_search c \<in> set (trace (snd R)) \<and> sc_threshold c = s_threshold a"
    if "dbs w (case s_db a of None \<Rightarrow> BDB_DB_FILENAME g | Some d \<Rightarrow> d) \<noteq> None"
      and "s_pipe_in a \<or> truthy (s_seq a) \<or> truthy (s_seqfile a)"
    using so' that by auto
  have p0: "s_threshold search_defaults = 1" by (simp add: search_defaults_def)
  have p3: "parser_query_threshold int_of_text None = Inr 100"
    by (simp add: parser_query_threshold_def)
  show ?thesis using p0 p1 p2 p3 unfolding R_def by blast
qed

text \<open>C2 on a concrete run with threshold \<open>3/4\<close>.\<close>

theorem search_threshold_unchecked_witness:
  "dbs example_world ''./db'' \<noteq> None
   \<and> truthy (s_seq (search_defaults\<lparr>s_seq := Some ''ACGT'', s_threshold := 3 / 4\<rparr>))
   \<and> (\<exists>c. Call_search c \<in> set (trace (snd (bigsi_search example_globals idle_command []
              ''/tmp/q'' (search_defaults\<lparr>s_seq := Some ''ACGT'', s_threshold := 3 / 4\<rparr>)
              example_world)))
          \<and> sc_threshold c = 3 / 4)"
proof -
  let ?a = "search_defaults\<lparr>s_seq := Some ''ACGT'', s_threshold := 3 / 4\<rparr>"
  have db: "dbs example_world (case s_db ?a of None \<Rightarrow> BDB_DB_FILENAME example_globals
                                | Some d \<Rightarrow> d) \<noteq> None"
    by (simp add: search_defaults_def example_globals_def example_world_def)
  have inp: "truthy (s_seq ?a)" by (simp add: truthy_def)
  have "\<exists>c. Call_search c \<in> set (trace (snd (bigsi_search example_globals idle_command []
              ''/tmp/q'' ?a example_world))) \<and> sc_threshold c = s_threshold ?a"
    using search_threshold_unchecked [where g = example_globals and cmd = idle_command and stdin = "[]"
        and fp = "''/tmp/q''" and a = ?a and w = example_world] db inp
    by blast
  then show ?thesis using inp by (simp add: example_world_def)
qed

text \<open>
  C2 as stated fails: a search with threshold \<open>2\<close>, outside \<open>[0, 1]\<close>, is accepted: the
  query is issued with threshold \<open>2\<close> and the run returns its value.
\<close>

theorem search_accepts_threshold_two:
  "Call_search \<lparr>sc_seq = Some ''ACGT'', sc_fasta_file = None, sc_threshold = 2,
          sc_graph = \<lparr>db_path = ''./db'', open_mode = Some ''r'', bloom_filter_size = 2,
                       kmer_size = 3\<rparr>,
          sc_output_format = ''json'', sc_pipe = False, sc_score = False\<rparr>
     \<in> set (trace (snd (bigsi_search example_globals idle_command [] ''/tmp/q''
               (search_defaults\<lparr>s_seq := Some ''ACGT'', s_threshold := 2\<rparr>) example_world)))
   \<and> fst (bigsi_search example_globals idle_command [] ''/tmp/q''
               (search_defaults\<lparr>s_seq := Some ''ACGT'', s_threshold := 2\<rparr>) example_world)
       = Inr (Returned ())
   \<and> \<not> ((0::real) \<le> 2 \<and> (2::real) \<le> 1)"
  by (simp add: run_defs)

text \<open>
  C6. When the module loads, \<^verbatim>\<open>BDB_DB_FILENAME\<close> is the environment's value of that name, or
  \<^verbatim>\<open>"./db"\<close> without one; \<^verbatim>\<open>BFSIZE\<close> and \<^verbatim>\<open>NUM_HASHES\<close> are the integers read from the
  environment's values, or \<open>25000000\<close> and \<open>3\<close> without them. A search called with
  \<^verbatim>\<open>db = None\<close> behaves as one called with \<^verbatim>\<open>db = BDB_DB_FILENAME\<close>, and opens the index at
  that path.
\<close>

theorem defaults_from_environment:
  assumes "module_load int_of_text environ = Inr g"
  shows "BDB_DB_FILENAME g = (case environ ''BDB_DB_FILENAME'' of None \<Rightarrow> ''./db'' | Some v \<Rightarrow> v)
       \<and> (case environ ''BFSIZE'' of None \<Rightarrow> BFSIZE g = 25000000
            | Some v \<Rightarrow> int_of_text v = Inr (BFSIZE g))
       \<and> (case environ ''NUM_HASHES'' of None \<Rightarrow> NUM_HASHES g = 3
            | Some v \<Rightarrow> int_of_text v = Inr (NUM_HASHES g))
       \<and> (s_db a = None \<longrightarrow>
            bigsi_search g cmd stdin fp a w
              = bigsi_search g cmd stdin fp (a\<lparr>s_db := Some (BDB_DB_FILENAME g)\<rparr>) w
            \<and> (\<exists>evs. trace (snd (bigsi_search g cmd stdin fp a w)) =
                  trace w @ Open_BIGSI (BDB_DB_FILENAME g) (Some (s_cachesize a))
                              (Some (s_nproc a)) (Some ''r'') # evs))"
proof -
  have p1: "BDB_DB_FILENAME g = (case environ ''BDB_DB_FILENAME'' of None \<Rightarrow> ''./db'' | Some v \<Rightarrow> v)"
    using assms
    by (auto simp add: module_load_def environ_get_def split: sum.splits)
  have p2: "(case environ ''BFSIZE'' of None \<Rightarrow> BFSIZE g = 25000000
            | Some v \<Rightarrow> int_of_text v = Inr (BFSIZE g))"
    using assms
    by (auto simp add: module_load_def environ_int_def split: sum.splits option.splits)
  have p3: "(case environ ''NUM_HASHES'' of None \<Rightarrow> NUM_HASHES g = 3
            | Some v \<Rightarrow> int_of_text v = Inr (NUM_HASHES g))"
    using assms
    by (auto simp add: module_load_def environ_int_def split: sum.splits option.splits)
  have p4: "bigsi_search g cmd stdin fp a w
              = bigsi_search g cmd stdin fp (a\<lparr>s_db := Some (BDB_DB_FILENAME g)\<rparr>) w"
    if "s_db a = None"
    using that by (simp add: bigsi_search_def Let_def cong: if_cong split del: if_split)
  have p5: "\<exists>evs. trace (snd (bigsi_search g cmd stdin fp a w)) =
                  trace w @ Open_BIGSI (BDB_DB_FILENAME g) (Some (s_cachesize a))
                              (Some (s_nproc a)) (Some ''r'') # evs"
    if n: "s_db a = None"
  proof -
    note so = search_outcome [where a = a and w = w and g = g and cmd = cmd
      and stdin = stdin and fp = fp]
    define R where "R = bigsi_search g cmd stdin fp a w"
    define ev0 where "ev0 = Open_BIGSI (BDB_DB_FILENAME g) (Some (s_cachesize a))
                              (Some (s_nproc a)) (Some ''r'')"
    have "trace (snd R) = trace w @ ev0 # [] \<or> (\<exists>c. trace (snd R) = trace w @ ev0 # [c])"
      using so n unfolding R_def [symmetric] by (auto simp add: ev0_def)
    then have "\<exists>evs. trace (snd R) = trace w @ ev0 # evs" by blast
    then show ?thesis by (simp add: R_def ev0_def)
  qed
  show ?thesis using p1 p2 p3 p4 p5 by blast
qed

text \<open>C6 on concrete environments: one that sets the path and the width, and the empty one.\<close>

theorem defaults_from_environment_witness:
  "module_load (\<lambda>s. if s = ''1000'' then Inr 1000 else Inl (ValueError s))
     [''BDB_DB_FILENAME'' \<mapsto> ''/data/index'', ''BFSIZE'' \<mapsto> ''1000'']
     = Inr \<lparr>BFSIZE = 1000, NUM_HASHES = 3, STORAGE = ''berkeleydb'',
            BDB_DB_FILENAME = ''/data/index'', CACHESIZE = 1\<rparr>
   \<and> module_load (\<lambda>s. Inl (ValueError s)) Map.empty = Inr example_globals
   \<and> s_db search_defaults = None
   \<and> bigsi_search example_globals idle_command [] ''/tmp/q'' search_defaults example_world
       = bigsi_search example_globals idle_command [] ''/tmp/q''
           (search_defaults\<lparr>s_db := Some ''./db''\<rparr>) example_world"
proof -
  have l1: "module_load (\<lambda>s. if s = ''1000'' then Inr 1000 else Inl (ValueError s))
     [''BDB_DB_FILENAME'' \<mapsto> ''/data/index'', ''BFSIZE'' \<mapsto> ''1000'']
     = Inr \<lparr>BFSIZE = 1000, NUM_HASHES = 3, STORAGE = ''berkeleydb'',
            BDB_DB_FILENAME = ''/data/index'', CACHESIZE = 1\<rparr>"
    by (simp add: module_load_def environ_int_def environ_get_def)
  have l2: "module_load (\<lambda>s. Inl (ValueError s)) Map.empty = Inr example_globals"
    by (simp add: module_load_def environ_int_def environ_get_def example_globals_def)
  have n: "s_db search_defaults = None" by (simp add: search_defaults_def)
  have g: "BDB_DB_FILENAME example_globals = ''./db''" by (simp add: example_globals_def)
  have "bigsi_search example_globals idle_command [] ''/tmp/q'' search_defaults example_world
       = bigsi_search example_globals idle_command [] ''/tmp/q''
           (search_defaults\<lparr>s_db := Some (BDB_DB_FILENAME example_globals)\<rparr>) example_world"
    using defaults_from_environment [OF l2, where a = search_defaults and cmd = idle_command and stdin = "[]"
        and fp = "''/tmp/q''" and w = example_world] n
    by blast
  then show ?thesis using l1 l2 n g by simp
qed

section \<open>build\<close>

text \<open>
  The courses a run of \<^verbatim>\<open>build\<close> can take, in the order of the source: the index cannot
  be opened, the sample count is wrong, the memory cap does not parse, the batch index is
  below one, the row range cannot be computed, or the build command is called.
\<close>

lemma build_outcome:
  fixes fc parse_size cmd a w
  defines "ev0 \<equiv> Open_BIGSI (b_db a) None None None"
  defines "R \<equiv> bigsi_build fc parse_size cmd a w"
  defines "samples_ok \<equiv> b_samples a = [] \<or> length (b_samples a) = length (b_bloomfilters a)"
  defines "memory_ok \<equiv> b_max_memory a = [] \<or> (\<exists>n. parse_size (b_max_memory a) = Inr n)"
  shows
   "(dbs w (b_db a) = None \<and> R = (Inl (ValueError ''Cannot find a BIGSI''), log_event ev0 w))
  \<or> (dbs w (b_db a) \<noteq> None \<and> \<not> samples_ok \<and> R = (Inl AssertionError, log_event ev0 w))
  \<or> (dbs w (b_db a) \<noteq> None \<and> samples_ok \<and> \<not> memory_ok
        \<and> (\<exists>e. parse_size (b_max_memory a) = Inl e \<and> R = (Inl e, log_event ev0 w)))
  \<or> (dbs w (b_db a) \<noteq> None \<and> samples_ok \<and> memory_ok \<and> b_i a < 1
        \<and> R = (Inl (ValueError ''Batch index is one-based. Use 1 for first batch, not 0.''),
                log_event ev0 w))
  \<or> (\<exists>st e. dbs w (b_db a) = Some st \<and> samples_ok \<and> memory_ok \<and> 1 \<le> b_i a
        \<and> bf_range_calc fc \<lparr>db_path = b_db a, open_mode = None, bloom_filter_size = hdr_m st,
                          kmer_size = hdr_k st\<rparr> (b_i a) (b_N a) = Inl e
        \<and> R = (Inl e, log_event ev0 w))
  \<or> (\<exists>st bf_range c. dbs w (b_db a) = Some st \<and> samples_ok \<and> memory_ok \<and> 1 \<le> b_i a
        \<and> bf_range_calc fc \<lparr>db_path = b_db a, open_mode = None, bloom_filter_size = hdr_m st,
                          kmer_size = hdr_k st\<rparr> (b_i a) (b_N a) = Inr bf_range
        \<and> bc_samples c = (if b_samples a \<noteq> [] then b_samples a else b_bloomfilters a)
        \<and> bc_bloomfilter_filepaths c = b_bloomfilters a
        \<and> bc_bf_range c = bf_range
        \<and> R = and_then (call_build cmd c) (\<lambda>r. returns (Returned r))
                 ((log_event ev0 w)\<lparr>stdout := stdout w @ [str_pair bf_range]\<rparr>))"
proof (cases "dbs w (b_db a)")
  case None
  have "R = (Inl (ValueError ''Cannot find a BIGSI''), log_event ev0 w)"
    unfolding R_def ev0_def bigsi_build_def by (rule open_fails [OF None])
  then show ?thesis using None by simp
next
  case (Some st)
  define index where "index = \<lparr>db_path = b_db a, open_mode = None,
      bloom_filter_size = hdr_m st, kmer_size = hdr_k st\<rparr>"
  note opened = open_then [OF Some, of None None None, folded index_def ev0_def]
  show ?thesis
  proof (cases samples_ok)
    case False
    then have "R = (Inl AssertionError, log_event ev0 w)"
      unfolding R_def bigsi_build_def opened
      by (simp add: samples_ok_def and_then_def lift_def)
    then show ?thesis using Some False by simp
  next
    case sok: True
    define samples where "samples = (if b_samples a \<noteq> [] then b_samples a else b_bloomfilters a)"
    have s1: "(if b_samples a \<noteq> [] then
                 (if length (b_samples a) = length (b_bloomfilters a)
                  then Inr (b_samples a) else Inl AssertionError)
               else Inr (b_bloomfilters a)) = (Inr samples :: py_error + string list)"
      using sok by (auto simp add: samples_ok_def samples_def)
    show ?thesis
    proof (cases memory_ok)
      case False
      then obtain e where e: "parse_size (b_max_memory a) = Inl e" and ne: "b_max_memory a \<noteq> []"
        unfolding memory_ok_def by (cases "parse_size (b_max_memory a)") auto
      have "R = (Inl e, log_event ev0 w)"
        unfolding R_def bigsi_build_def opened s1
        using e ne by (simp add: and_then_def lift_def)
      then show ?thesis using Some sok False e by simp
    next
      case mok: True
      obtain mm where s2: "(if b_max_memory a \<noteq> [] then
                       (case parse_size (b_max_memory a) of
                          Inl e \<Rightarrow> Inl e
                        | Inr n \<Rightarrow> Inr (Some n))
                     else Inr None) = (Inr mm :: py_error + int option)"
        using mok unfolding memory_ok_def by (cases "b_max_memory a = []") auto
      show ?thesis
      proof (cases "b_i a < 1")
        case True
        have "R = (Inl (ValueError ''Batch index is one-based. Use 1 for first batch, not 0.''),
                log_event ev0 w)"
          unfolding R_def bigsi_build_def opened s1 s2
          using True by (simp add: and_then_def lift_def raises_def)
        then show ?thesis using Some sok mok True by simp
      next
        case ige: False
        show ?thesis
        proof (cases "bf_range_calc fc index (b_i a) (b_N a)")
          case (Inl e)
          have "R = (Inl e, log_event ev0 w)"
            unfolding R_def bigsi_build_def opened s1 s2
            using ige Inl by (simp add: and_then_def lift_def)
          then show ?thesis using Some sok mok ige Inl unfolding index_def by simp
        next
          case (Inr bf_range)
          define c where "c = \<lparr>bc_index = index, bc_bloomfilter_filepaths = b_bloomfilters a,
                    bc_samples = samples, bc_max_memory = mm,
                    bc_lowmem = b_lowmem a, bc_bf_range = bf_range\<rparr>"
          have "R = and_then (call_build cmd c) (\<lambda>r. returns (Returned r))
                 ((log_event ev0 w)\<lparr>stdout := stdout w @ [str_pair bf_range]\<rparr>)"
            unfolding R_def bigsi_build_def opened s1 s2
            using ige Inr by (simp add: and_then_def lift_def print_def c_def log_event_def)
          moreover have "bc_samples c = samples" "bc_bloomfilter_filepaths c = b_bloomfilters a"
            "bc_bf_range c = bf_range" by (simp_all add: c_def)
          ultimately have "\<exists>st bf_range c. dbs w (b_db a) = Some st \<and> samples_ok \<and> memory_ok
              \<and> 1 \<le> b_i a
              \<and> bf_range_calc fc \<lparr>db_path = b_db a, open_mode = None, bloom_filter_size = hdr_m st,
                          kmer_size = hdr_k st\<rparr> (b_i a) (b_N a) = Inr bf_range
              \<and> bc_samples c = (if b_samples a \<noteq> [] then b_samples a else b_bloomfilters a)
              \<and> bc_bloomfilter_filepaths c = b_bloomfilters a
              \<and> bc_bf_range c = bf_range
              \<and> R = and_then (call_build cmd c) (\<lambda>r. returns (Returned r))
                       ((log_event ev0 w)\<lparr>stdout := stdout w @ [str_pair bf_range]\<rparr>)"
            using Some sok mok ige Inr unfolding index_def samples_def
            by (intro exI [of _ st] exI [of _ bf_range] exI [of _ c]) simp
          then show ?thesis by (intro disjI2)
        qed
      qed
    qed
  qed
qed

lemmas build_run_defs = bigsi_build_def build_defaults_def and_then_def BIGSI_open_def
  call_build_def run_command_def log_event_def idle_command_def returns_def raises_def lift_def
  print_def acceptor_index_def donor_index_def example_world_def
  bf_range_calc_def ceil_div_def py_range_def py_getitem_def raise_overflow_def

text \<open>
  C3. When \<^verbatim>\<open>build\<close> is called with an empty list of sample names, every call of the build
  command it makes passes the Bloom filter file paths, in their order, as the sample
  names; and it does make that call whenever the index opens, the memory cap is empty or
  parses, the batch index is at least one and the row range is computed.
\<close>

theorem build_samples_default_to_paths:
  assumes "b_samples a = []"
  shows "(\<forall>c. Call_build c \<in> set (trace (snd (bigsi_build fc parse_size cmd a w)))
              \<and> Call_build c \<notin> set (trace w) \<longrightarrow>
              bc_samples c = b_bloomfilters a \<and> bc_bloomfilter_filepaths c = b_bloomfilters a)
       \<and> (\<forall>st bf_range.
            dbs w (b_db a) = Some st
            \<and> (b_max_memory a = [] \<or> (\<exists>n. parse_size (b_max_memory a) = Inr n))
            \<and> 1 \<le> b_i a
            \<and> bf_range_calc fc \<lparr>db_path = b_db a, open_mode = None, bloom_filter_size = hdr_m st,
                              kmer_size = hdr_k st\<rparr> (b_i a) (b_N a) = Inr bf_range \<longrightarrow>
            (\<exists>c. trace (snd (bigsi_build fc parse_size cmd a w))
                    = trace w @ [Open_BIGSI (b_db a) None None None, Call_build c]
                 \<and> bc_samples c = b_bloomfilters a))"
proof -
  define R where "R = bigsi_build fc parse_size cmd a w"
  define ev0 where "ev0 = Open_BIGSI (b_db a) None None None"
  note bo = build_outcome [where w = w and a = a and parse_size = parse_size and cmd = cmd
      and fc = fc, folded R_def ev0_def]
  have tr: "trace (snd R) = trace w @ [ev0]
            \<or> (\<exists>c. trace (snd R) = trace w @ [ev0, Call_build c]
                   \<and> bc_samples c = b_bloomfilters a
                   \<and> bc_bloomfilter_filepaths c = b_bloomfilters a)"
    using bo assms
    by (elim disjE exE conjE)
       (simp_all add: snd_and_then_returns call_build_trace)
  have p1: "\<forall>c. Call_build c \<in> set (trace (snd R)) \<and> Call_build c \<notin> set (trace w) \<longrightarrow>
              bc_samples c = b_bloomfilters a \<and> bc_bloomfilter_filepaths c = b_bloomfilters a"
    using tr by (auto simp add: ev0_def)
  have p2: "\<exists>c. trace (snd R) = trace w @ [ev0, Call_build c] \<and> bc_samples c = b_bloomfilters a"
    if h: "dbs w (b_db a) = Some st"
      "b_max_memory a = [] \<or> (\<exists>n. parse_size (b_max_memory a) = Inr n)"
      "1 \<le> b_i a"
      "bf_range_calc fc \<lparr>db_path = b_db a, open_mode = None, bloom_filter_size = hdr_m st,
                       kmer_size = hdr_k st\<rparr> (b_i a) (b_N a) = Inr bf_range"
    for st bf_range
    using bo assms h
    by (elim disjE exE conjE)
       (simp_all add: snd_and_then_returns call_build_trace)
  show ?thesis using p1 p2 unfolding R_def ev0_def by blast
qed

text \<open>C3 on a concrete run: two Bloom filter files and no sample names.\<close>

theorem build_samples_default_to_paths_witness:
  "b_samples (build_defaults ''./db'' [''a.bloom'', ''b.bloom'']) = []
   \<and> trace (snd (bigsi_build raise_overflow (\<lambda>s. Inl (ValueError s)) idle_command
                   (build_defaults ''./db'' [''a.bloom'', ''b.bloom'']) example_world))
       = [Open_BIGSI ''./db'' None None None,
          Call_build \<lparr>bc_index = \<lparr>db_path = ''./db'', open_mode = None, bloom_filter_size = 2,
                                   kmer_size = 3\<rparr>,
                      bc_bloomfilter_filepaths = [''a.bloom'', ''b.bloom''],
                      bc_samples = [''a.bloom'', ''b.bloom''], bc_max_memory = None,
                      bc_lowmem = False, bc_bf_range = (0, 2)\<rparr>]
   \<and> (\<exists>c. trace (snd (bigsi_build raise_overflow (\<lambda>s. Inl (ValueError s)) idle_command
                   (build_defaults ''./db'' [''a.bloom'', ''b.bloom'']) example_world))
             = [Open_BIGSI ''./db'' None None None, Call_build c]
          \<and> bc_samples c = [''a.bloom'', ''b.bloom''])"
proof -
  let ?a = "build_defaults ''./db'' [''a.bloom'', ''b.bloom'']"
  let ?ix = "\<lparr>db_path = b_db ?a, open_mode = None, bloom_filter_size = hdr_m acceptor_index,
              kmer_size = hdr_k acceptor_index\<rparr>"
  have h: "b_samples ?a = []" by (simp add: build_defaults_def)
  have ev: "trace (snd (bigsi_build raise_overflow (\<lambda>s. Inl (ValueError s)) idle_command ?a example_world))
       = [Open_BIGSI ''./db'' None None None,
          Call_build \<lparr>bc_index = \<lparr>db_path = ''./db'', open_mode = None, bloom_filter_size = 2,
                                   kmer_size = 3\<rparr>,
                      bc_bloomfilter_filepaths = [''a.bloom'', ''b.bloom''],
                      bc_samples = [''a.bloom'', ''b.bloom''], bc_max_memory = None,
                      bc_lowmem = False, bc_bf_range = (0, 2)\<rparr>]"
    by (simp add: build_run_defs)
  have db: "dbs example_world (b_db ?a) = Some acceptor_index"
    by (simp add: build_defaults_def example_world_def)
  have mm: "b_max_memory ?a = [] \<or> (\<exists>n. (\<lambda>s. Inl (ValueError s)) (b_max_memory ?a) = Inr n)"
    by (simp add: build_defaults_def)
  have i: "1 \<le> b_i ?a" by (simp add: build_defaults_def)
  have r: "bf_range_calc raise_overflow ?ix (b_i ?a) (b_N ?a) = Inr (0, 2)"
    by (simp add: build_run_defs)
  have "\<exists>c. trace (snd (bigsi_build raise_overflow (\<lambda>s. Inl (ValueError s)) idle_command ?a example_world))
               = trace example_world @ [Open_BIGSI (b_db ?a) None None None, Call_build c]
            \<and> bc_samples c = b_bloomfilters ?a"
    by (rule build_samples_default_to_paths [OF h,
          where fc = raise_overflow and parse_size = "\<lambda>s. Inl (ValueError s)" and cmd = idle_command
            and w = example_world,
          THEN conjunct2, THEN spec, THEN spec, THEN mp, of acceptor_index "(0, 2)"])
       (intro conjI db mm i r)
  then have "\<exists>c. trace (snd (bigsi_build raise_overflow (\<lambda>s. Inl (ValueError s)) idle_command ?a example_world))
               = [Open_BIGSI ''./db'' None None None, Call_build c]
            \<and> bc_samples c = [''a.bloom'', ''b.bloom'']"
    by (simp add: build_defaults_def example_world_def)
  then show ?thesis using h ev by blast
qed

text \<open>
  C8 (amended). With a batch index below one, \<^verbatim>\<open>build\<close> always ends in an exception after
  opening the index and doing nothing else: no row range is computed or printed, the
  build command is not called and the indexes are unchanged. The exception is
  \<^verbatim>\<open>ValueError("Batch index is one-based. Use 1 for first batch, not 0.")\<close> whenever the
  steps before the check pass: the index opens, a non-empty list of sample names is as
  long as the list of Bloom filters, and a non-empty memory cap parses. The batch index
  is one-based: with batch index \<open>1\<close>, those steps passing and a width and a partition
  count from \<open>1\<close> to below \<open>2^53\<close>, \<^verbatim>\<open>build\<close> calls the build command with a row range
  that starts at row \<open>0\<close>.
\<close>

theorem build_rejects_batch_index_below_one:
  "(b_i a < 1 \<longrightarrow>
      (\<exists>e. bigsi_build fc parse_size cmd a w
              = (Inl e, log_event (Open_BIGSI (b_db a) None None None) w))
      \<and> (dbs w (b_db a) \<noteq> None
           \<and> (b_samples a = [] \<or> length (b_samples a) = length (b_bloomfilters a))
           \<and> (b_max_memory a = [] \<or> (\<exists>n. parse_size (b_max_memory a) = Inr n)) \<longrightarrow>
           bigsi_build fc parse_size cmd a w
             = (Inl (ValueError ''Batch index is one-based. Use 1 for first batch, not 0.''),
                log_event (Open_BIGSI (b_db a) None None None) w)))
   \<and> (b_i a = 1
        \<and> dbs w (b_db a) = Some st
        \<and> (b_samples a = [] \<or> length (b_samples a) = length (b_bloomfilters a))
        \<and> (b_max_memory a = [] \<or> (\<exists>n. parse_size (b_max_memory a) = Inr n))
        \<and> 1 \<le> hdr_m st \<and> hdr_m st < 2 ^ 53 \<and> 1 \<le> b_N a \<and> b_N a < 2 ^ 53 \<longrightarrow>
        (\<exists>c e. trace (snd (bigsi_build fc parse_size cmd a w))
                  = trace w @ [Open_BIGSI (b_db a) None None None, Call_build c]
               \<and> bc_bf_range c = (0, e) \<and> 0 < e))"
proof -
  define R where "R = bigsi_build fc parse_size cmd a w"
  define ev0 where "ev0 = Open_BIGSI (b_db a) None None None"
  note bo = build_outcome [where w = w and a = a and parse_size = parse_size and cmd = cmd
      and fc = fc, folded R_def ev0_def]
  have p1: "\<exists>e. R = (Inl e, log_event ev0 w)" if "b_i a < 1"
    using bo that by (elim disjE exE conjE) simp_all
  have p2: "R = (Inl (ValueError ''Batch index is one-based. Use 1 for first batch, not 0.''),
                 log_event ev0 w)"
    if "b_i a < 1" "dbs w (b_db a) \<noteq> None"
      "b_samples a = [] \<or> length (b_samples a) = length (b_bloomfilters a)"
      "b_max_memory a = [] \<or> (\<exists>n. parse_size (b_max_memory a) = Inr n)"
    using bo that by (elim disjE exE conjE) simp_all
  have p3: "\<exists>c e. trace (snd R) = trace w @ [ev0, Call_build c] \<and> bc_bf_range c = (0, e) \<and> 0 < e"
    if i: "b_i a = 1" and st: "dbs w (b_db a) = Some st"
      and sok: "b_samples a = [] \<or> length (b_samples a) = length (b_bloomfilters a)"
      and mok: "b_max_memory a = [] \<or> (\<exists>n. parse_size (b_max_memory a) = Inr n)"
      and m: "1 \<le> hdr_m st" and mb: "hdr_m st < 2 ^ 53"
      and N: "1 \<le> b_N a" and Nb: "b_N a < 2 ^ 53"
  proof -
    define index where "index = \<lparr>db_path = b_db a, open_mode = None,
        bloom_filter_size = hdr_m st, kmer_size = hdr_k st\<rparr>"
    define b where "b = - ((- hdr_m st) div b_N a)"
    have sz: "bloom_filter_size index = hdr_m st" by (simp add: index_def)
    have b_pos: "0 < b" using ceil_pos [OF m N] by (simp add: b_def)
    have r: "bf_range_calc fc index (b_i a) (b_N a) = Inr (0, b)"
      using bf_range_calc_returns [of index "b_N a" 1 fc] m mb N Nb
      by (simp add: sz i b_def)
    have "\<exists>c bf_range. bc_bf_range c = (0, b)
            \<and> R = and_then (call_build cmd c) (\<lambda>r. returns (Returned r))
                     ((log_event ev0 w)\<lparr>stdout := stdout w @ [str_pair bf_range]\<rparr>)"
      using bo i st sok mok r by (elim disjE exE conjE) (auto simp add: index_def)
    then obtain c bf_range where c: "bc_bf_range c = (0, b)"
      and Req: "R = and_then (call_build cmd c) (\<lambda>r. returns (Returned r))
                     ((log_event ev0 w)\<lparr>stdout := stdout w @ [str_pair bf_range]\<rparr>)"
      by blast
    have "trace (snd R) = trace w @ [ev0, Call_build c]"
      unfolding Req by (simp add: snd_and_then_returns call_build_trace)
    then show ?thesis using c b_pos by blast
  qed
  show ?thesis using p1 p2 p3 unfolding R_def ev0_def by blast
qed

text \<open>C8 on concrete runs with batch index \<open>0\<close> and batch index \<open>1\<close>.\<close>

theorem build_rejects_batch_index_below_one_witness:
  "b_i ((build_defaults ''./db'' [''a.bloom''])\<lparr>b_i := 0\<rparr>) < 1
   \<and> dbs example_world (b_db ((build_defaults ''./db'' [''a.bloom''])\<lparr>b_i := 0\<rparr>)) \<noteq> None
   \<and> bigsi_build raise_overflow (\<lambda>s. Inl (ValueError s)) idle_command
        ((build_defaults ''./db'' [''a.bloom''])\<lparr>b_i := 0\<rparr>) example_world
       = (Inl (ValueError ''Batch index is one-based. Use 1 for first batch, not 0.''),
          log_event (Open_BIGSI ''./db'' None None None) example_world)
   \<and> b_i (build_defaults ''./db'' [''a.bloom'']) = 1
   \<and> (\<exists>c e. trace (snd (bigsi_build raise_overflow (\<lambda>s. Inl (ValueError s)) idle_command
                          (build_defaults ''./db'' [''a.bloom'']) example_world))
               = [Open_BIGSI ''./db'' None None None, Call_build c]
             \<and> bc_bf_range c = (0, e) \<and> 0 < e)"
proof -
  let ?a = "(build_defaults ''./db'' [''a.bloom''])\<lparr>b_i := 0\<rparr>"
  let ?b = "build_defaults ''./db'' [''a.bloom'']"
  have i: "b_i ?a < 1" by simp
  have db: "dbs example_world (b_db ?a) \<noteq> None"
    by (simp add: build_defaults_def example_world_def)
  have s: "b_samples ?a = [] \<or> length (b_samples ?a) = length (b_bloomfilters ?a)"
    by (simp add: build_defaults_def)
  have m: "b_max_memory ?a = [] \<or> (\<exists>n. (\<lambda>s. Inl (ValueError s)) (b_max_memory ?a) = Inr n)"
    by (simp add: build_defaults_def)
  have "bigsi_build raise_overflow (\<lambda>s. Inl (ValueError s)) idle_command ?a example_world
       = (Inl (ValueError ''Batch index is one-based. Use 1 for first batch, not 0.''),
          log_event (Open_BIGSI (b_db ?a) None None None) example_world)"
    by (rule build_rejects_batch_index_below_one [where a = ?a and fc = raise_overflow
          and parse_size = "\<lambda>s. Inl (ValueError s)" and cmd = idle_command
          and w = example_world, THEN conjunct1, THEN mp, OF i, THEN conjunct2, THEN mp])
       (intro conjI db s m)
  then have zero: "bigsi_build raise_overflow (\<lambda>s. Inl (ValueError s)) idle_command ?a
       example_world
       = (Inl (ValueError ''Batch index is one-based. Use 1 for first batch, not 0.''),
          log_event (Open_BIGSI ''./db'' None None None) example_world)"
    by (simp add: build_defaults_def)
  have i1: "b_i ?b = 1" by (simp add: build_defaults_def)
  have db1: "dbs example_world (b_db ?b) = Some acceptor_index"
    by (simp add: build_defaults_def example_world_def)
  have s1: "b_samples ?b = [] \<or> length (b_samples ?b) = length (b_bloomfilters ?b)"
    by (simp add: build_defaults_def)
  have m1: "b_max_memory ?b = [] \<or> (\<exists>n. (\<lambda>s. Inl (ValueError s)) (b_max_memory ?b) = Inr n)"
    by (simp add: build_defaults_def)
  have sz: "1 \<le> hdr_m acceptor_index" "hdr_m acceptor_index < 2 ^ 53"
    "1 \<le> b_N ?b" "b_N ?b < 2 ^ 53"
    by (simp_all add: acceptor_index_def build_defaults_def)
  have "\<exists>c e. trace (snd (bigsi_build raise_overflow (\<lambda>s. Inl (ValueError s)) idle_command ?b
                          example_world))
               = trace example_world @ [Open_BIGSI (b_db ?b) None None None, Call_build c]
             \<and> bc_bf_range c = (0, e) \<and> 0 < e"
    by (rule build_rejects_batch_index_below_one [where a = ?b and fc = raise_overflow
          and parse_size = "\<lambda>s. Inl (ValueError s)" and cmd = idle_command
          and w = example_world and st = acceptor_index, THEN conjunct2, THEN mp])
       (intro conjI i1 db1 s1 m1 sz)
  then have one: "\<exists>c e. trace (snd (bigsi_build raise_overflow (\<lambda>s. Inl (ValueError s))
                          idle_command ?b example_world))
               = [Open_BIGSI ''./db'' None None None, Call_build c]
             \<and> bc_bf_range c = (0, e) \<and> 0 < e"
    by (simp add: build_defaults_def example_world_def)
  show ?thesis using i db zero i1 one by blast
qed

text \<open>
  C8 as stated fails: with batch index \<open>0\<close>, one sample name and two Bloom filters, the
  assertion on the sample count comes first and \<^verbatim>\<open>build\<close> raises \<^verbatim>\<open>AssertionError\<close>.
\<close>

theorem build_assertion_precedes_batch_check:
  "b_i ((build_defaults ''./db'' [''a.bloom'', ''b.bloom''])\<lparr>b_samples := [''S9''], b_i := 0\<rparr>) < 1
   \<and> fst (bigsi_build raise_overflow (\<lambda>s. Inl (ValueError s)) idle_command
        ((build_defaults ''./db'' [''a.bloom'', ''b.bloom''])\<lparr>b_samples := [''S9''], b_i := 0\<rparr>)
        example_world) = Inl AssertionError
   \<and> AssertionError \<noteq> ValueError ''Batch index is one-based. Use 1 for first batch, not 0.''"
  by (simp add: build_run_defs)

section \<open>Missing input in search and bloom\<close>

lemma bloom_missing_input:
  assumes "dbs w (bl_db b) = Some st"
    and "\<not> truthy (bl_kmers b)" "\<not> truthy (bl_seqfile b)" "\<not> truthy (bl_ctx b)"
  shows "bigsi_bloom fc cmd b w =
           (Inr (PyStr ''--kmers or --seqfile must be provided''),
            log_event (Open_BIGSI (bl_db b) None None (Some ''r'')) w)"
proof -
  have t: "\<not> kmers_truthy (given_kmers (bl_kmers b))"
    using assms(2) by (simp add: truthy_def given_kmers_def split: option.splits)
  show ?thesis
    unfolding bigsi_bloom_def open_then [OF assms(1)] Let_def
    using t assms(3,4) by (simp add: returns_def truthy_def split: option.splits)
qed

lemma BIGSI_open_cases:
  "(dbs w db = None \<and>
      BIGSI_open db cs np mode w =
        (Inl (ValueError ''Cannot find a BIGSI''), log_event (Open_BIGSI db cs np mode) w))
   \<or> (\<exists>st. dbs w db = Some st \<and>
         BIGSI_open db cs np mode w =
           (Inr \<lparr>db_path = db, open_mode = mode, bloom_filter_size = hdr_m st,
                 kmer_size = hdr_k st\<rparr>,
            log_event (Open_BIGSI db cs np mode) w))"
  by (cases "dbs w db") (simp_all add: BIGSI_open_def)

text \<open>
  C10 (amended). When \<^verbatim>\<open>pipe_in\<close> is false and neither a sequence nor a sequence file is
  given, \<^verbatim>\<open>search\<close> constructs the index handle with mode \<^verbatim>\<open>"r"\<close> and does nothing else:
  no query is issued. When the constructor returns, \<^verbatim>\<open>search\<close> returns the text
  \<^verbatim>\<open>"-s or -f must be provided"\<close> instead of raising; when the constructor raises, its
  exception is what \<^verbatim>\<open>search\<close> raises. Likewise \<^verbatim>\<open>bloom\<close> without k-mers, sequence file
  and graph file constructs the handle, calls no command, and returns
  \<^verbatim>\<open>"--kmers or --seqfile must be provided"\<close> when the constructor returns.
\<close>

theorem missing_input_message:
  "(\<not> s_pipe_in a \<and> \<not> truthy (s_seq a) \<and> \<not> truthy (s_seqfile a) \<longrightarrow>
      trace (snd (bigsi_search g cmd stdin fp a w)) =
        trace w @ [Open_BIGSI (case s_db a of None \<Rightarrow> BDB_DB_FILENAME g | Some d \<Rightarrow> d)
                     (Some (s_cachesize a)) (Some (s_nproc a)) (Some ''r'')]
      \<and> (\<forall>h w'. BIGSI_open (case s_db a of None \<Rightarrow> BDB_DB_FILENAME g | Some d \<Rightarrow> d)
                    (Some (s_cachesize a)) (Some (s_nproc a)) (Some ''r'') w = (Inr h, w') \<longrightarrow>
                  bigsi_search g cmd stdin fp a w
                    = (Inr (PyStr ''-s or -f must be provided''), w'))
      \<and> (\<forall>e w'. BIGSI_open (case s_db a of None \<Rightarrow> BDB_DB_FILENAME g | Some d \<Rightarrow> d)
                    (Some (s_cachesize a)) (Some (s_nproc a)) (Some ''r'') w = (Inl e, w') \<longrightarrow>
                  bigsi_search g cmd stdin fp a w = (Inl e, w')))
   \<and> (\<not> truthy (bl_kmers b) \<and> \<not> truthy (bl_seqfile b) \<and> \<not> truthy (bl_ctx b) \<longrightarrow>
      trace (snd (bigsi_bloom fc cmd' b w)) =
        trace w @ [Open_BIGSI (bl_db b) None None (Some ''r'')]
      \<and> (\<forall>h w'. BIGSI_open (bl_db b) None None (Some ''r'') w = (Inr h, w') \<longrightarrow>
                  bigsi_bloom fc cmd' b w
                    = (Inr (PyStr ''--kmers or --seqfile must be provided''), w'))
      \<and> (\<forall>e w'. BIGSI_open (bl_db b) None None (Some ''r'') w = (Inl e, w') \<longrightarrow>
                  bigsi_bloom fc cmd' b w = (Inl e, w')))"
proof -
  define db where "db = (case s_db a of None \<Rightarrow> BDB_DB_FILENAME g | Some d \<Rightarrow> d)"
  define ev0 where "ev0 = Open_BIGSI db (Some (s_cachesize a)) (Some (s_nproc a)) (Some ''r'')"
  define ev1 where "ev1 = Open_BIGSI (bl_db b) None None (Some ''r'')"
  note oc0 = BIGSI_open_cases [of w db "Some (s_cachesize a)" "Some (s_nproc a)" "Some ''r''",
      folded ev0_def]
  note oc1 = BIGSI_open_cases [of w "bl_db b" None None "Some ''r''", folded ev1_def]
  have s_some: "bigsi_search g cmd stdin fp a w =
                 (Inr (PyStr ''-s or -f must be provided''), log_event ev0 w)"
    if m: "\<not> s_pipe_in a" "\<not> truthy (s_seq a)" "\<not> truthy (s_seqfile a)"
      and st: "dbs w db = Some st" for st
    unfolding ev0_def by (rule search_missing_input [OF db_def st m])
  have s_none: "bigsi_search g cmd stdin fp a w =
                 (Inl (ValueError ''Cannot find a BIGSI''), log_event ev0 w)"
    if n: "dbs w db = None"
    unfolding ev0_def by (rule search_unopened [OF db_def n])
  have s_tr: "trace (snd (bigsi_search g cmd stdin fp a w)) = trace w @ [ev0]"
    if m: "\<not> s_pipe_in a" "\<not> truthy (s_seq a)" "\<not> truthy (s_seqfile a)"
    using oc0 s_some [OF m] s_none by auto
  have s_ret: "bigsi_search g cmd stdin fp a w = (Inr (PyStr ''-s or -f must be provided''), w')"
    if m: "\<not> s_pipe_in a" "\<not> truthy (s_seq a)" "\<not> truthy (s_seqfile a)"
      and o: "BIGSI_open db (Some (s_cachesize a)) (Some (s_nproc a)) (Some ''r'') w = (Inr h, w')"
    for h w'
    using oc0 o s_some [OF m] by auto
  have s_err: "bigsi_search g cmd stdin fp a w = (Inl e, w')"
    if o: "BIGSI_open db (Some (s_cachesize a)) (Some (s_nproc a)) (Some ''r'') w = (Inl e, w')"
    for e w'
    using oc0 o s_none by auto
  have b_some: "bigsi_bloom fc cmd' b w =
                 (Inr (PyStr ''--kmers or --seqfile must be provided''), log_event ev1 w)"
    if m: "\<not> truthy (bl_kmers b)" "\<not> truthy (bl_seqfile b)" "\<not> truthy (bl_ctx b)"
      and st: "dbs w (bl_db b) = Some st" for st
    unfolding ev1_def by (rule bloom_missing_input [OF st m])
  have b_none: "bigsi_bloom fc cmd' b w =
                 (Inl (ValueError ''Cannot find a BIGSI''), log_event ev1 w)"
    if n: "dbs w (bl_db b) = None"
    unfolding ev1_def bigsi_bloom_def by (rule open_fails [OF n])
  have b_tr: "trace (snd (bigsi_bloom fc cmd' b w)) = trace w @ [ev1]"
    if m: "\<not> truthy (bl_kmers b)" "\<not> truthy (bl_seqfile b)" "\<not> truthy (bl_ctx b)"
    using oc1 b_some [OF m] b_none by auto
  have b_ret: "bigsi_bloom fc cmd' b w
                 = (Inr (PyStr ''--kmers or --seqfile must be provided''), w')"
    if m: "\<not> truthy (bl_kmers b)" "\<not> truthy (bl_seqfile b)" "\<not> truthy (bl_ctx b)"
      and o: "BIGSI_open (bl_db b) None None (Some ''r'') w = (Inr h, w')"
    for h w'
    using oc1 o b_some [OF m] by auto
  have b_err: "bigsi_bloom fc cmd' b w = (Inl e, w')"
    if o: "BIGSI_open (bl_db b) None None (Some ''r'') w = (Inl e, w')"
    for e w'
    using oc1 o b_none by auto
  show ?thesis
    using s_tr s_ret s_err b_tr b_ret b_err unfolding ev0_def ev1_def db_def by blast
qed

text \<open>C10 on concrete runs: \<^verbatim>\<open>search\<close> and \<^verbatim>\<open>bloom\<close> with their default arguments on an
  index that opens.\<close>

theorem missing_input_message_witness:
  "\<not> s_pipe_in search_defaults \<and> s_seq search_defaults = None
   \<and> s_seqfile search_defaults = None
   \<and> fst (BIGSI_open ''./db'' (Some 4) (Some 4) (Some ''r'') example_world)
       = Inr \<lparr>db_path = ''./db'', open_mode = Some ''r'', bloom_filter_size = 2, kmer_size = 3\<rparr>
   \<and> bigsi_search example_globals idle_command [] ''/tmp/q'' search_defaults example_world
       = (Inr (PyStr ''-s or -f must be provided''),
          log_event (Open_BIGSI ''./db'' (Some 4) (Some 4) (Some ''r'')) example_world)
   \<and> bl_kmers ((bloom_defaults ''out.bloom'')\<lparr>bl_db := ''./db''\<rparr>) = None
   \<and> bl_seqfile ((bloom_defaults ''out.bloom'')\<lparr>bl_db := ''./db''\<rparr>) = None
   \<and> bl_ctx ((bloom_defaults ''out.bloom'')\<lparr>bl_db := ''./db''\<rparr>) = None
   \<and> bigsi_bloom raise_overflow idle_command
        ((bloom_defaults ''out.bloom'')\<lparr>bl_db := ''./db''\<rparr>) example_world
       = (Inr (PyStr ''--kmers or --seqfile must be provided''),
          log_event (Open_BIGSI ''./db'' None None (Some ''r'')) example_world)"
proof -
  let ?b = "(bloom_defaults ''out.bloom'')\<lparr>bl_db := ''./db''\<rparr>"
  let ?h = "\<lparr>db_path = ''./db'', open_mode = Some ''r'', bloom_filter_size = 2, kmer_size = 3\<rparr>"
  have s: "\<not> s_pipe_in search_defaults" "s_seq search_defaults = None"
    "s_seqfile search_defaults = None"
    by (simp_all add: search_defaults_def)
  have sm: "\<not> s_pipe_in search_defaults \<and> \<not> truthy (s_seq search_defaults)
            \<and> \<not> truthy (s_seqfile search_defaults)"
    by (simp add: search_defaults_def truthy_def)
  have b: "bl_kmers ?b = None" "bl_seqfile ?b = None" "bl_ctx ?b = None"
    by (simp_all add: bloom_defaults_def)
  have bm: "\<not> truthy (bl_kmers ?b) \<and> \<not> truthy (bl_seqfile ?b) \<and> \<not> truthy (bl_ctx ?b)"
    by (simp add: bloom_defaults_def truthy_def)
  have o0: "BIGSI_open (case s_db search_defaults of None \<Rightarrow> BDB_DB_FILENAME example_globals
                        | Some d \<Rightarrow> d)
              (Some (s_cachesize search_defaults)) (Some (s_nproc search_defaults)) (Some ''r'')
              example_world
            = (Inr ?h, log_event (Open_BIGSI ''./db'' (Some 4) (Some 4) (Some ''r'')) example_world)"
    by (simp add: BIGSI_open_def search_defaults_def example_globals_def example_world_def
        acceptor_index_def)
  have o1: "BIGSI_open (bl_db ?b) None None (Some ''r'') example_world
            = (Inr ?h, log_event (Open_BIGSI ''./db'' None None (Some ''r'')) example_world)"
    by (simp add: BIGSI_open_def bloom_defaults_def example_world_def acceptor_index_def)
  have o: "fst (BIGSI_open ''./db'' (Some 4) (Some 4) (Some ''r'') example_world) = Inr ?h"
    by (simp add: BIGSI_open_def example_world_def acceptor_index_def)
  note t = missing_input_message [where w = example_world and a = search_defaults
      and g = example_globals and cmd = idle_command and stdin = "[]" and fp = "''/tmp/q''"
      and b = ?b and cmd' = idle_command and fc = raise_overflow]
  have "bigsi_search example_globals idle_command [] ''/tmp/q'' search_defaults example_world
       = (Inr (PyStr ''-s or -f must be provided''),
          log_event (Open_BIGSI ''./db'' (Some 4) (Some 4) (Some ''r'')) example_world)"
    by (rule t [THEN conjunct1, THEN mp, OF sm, THEN conjunct2, THEN conjunct1,
          THEN spec, THEN spec, THEN mp, OF o0])
  moreover have "bigsi_bloom raise_overflow idle_command ?b example_world
       = (Inr (PyStr ''--kmers or --seqfile must be provided''),
          log_event (Open_BIGSI ''./db'' None None (Some ''r'')) example_world)"
    by (rule t [THEN conjunct2, THEN mp, OF bm, THEN conjunct2, THEN conjunct1,
          THEN spec, THEN spec, THEN mp, OF o1])
  ultimately show ?thesis using s b o by simp
qed

text \<open>
  C10 as stated fails: with no sequence and no sequence file, on a path where there is no
  index, the constructor raises before the input is looked at, and \<^verbatim>\<open>search\<close> raises
  instead of returning the message.
\<close>

theorem search_missing_input_raises_on_absent_index:
  "\<not> s_pipe_in (search_defaults\<lparr>s_db := Some ''./none''\<rparr>)
   \<and> s_seq (search_defaults\<lparr>s_db := Some ''./none''\<rparr>) = None
   \<and> s_seqfile (search_defaults\<lparr>s_db := Some ''./none''\<rparr>) = None
   \<and> fst (bigsi_search example_globals idle_command [] ''/tmp/q''
            (search_defaults\<lparr>s_db := Some ''./none''\<rparr>) example_world)
       = Inl (ValueError ''Cannot find a BIGSI'')"
  by (simp add: run_defs)

section \<open>merge\<close>

lemma length_read_row [simp]: "length (read_row st r) = length (registry st)"
  by (simp add: read_row_def)

lemma read_row_nth:
  "c < length (registry st) \<Longrightarrow>
   read_row st r ! c = (r < length (rows st) \<and> c < length (rows st ! r) \<and> rows st ! r ! c)"
  by (simp add: read_row_def)

text \<open>A row stored at full width reads as it is stored.\<close>

lemma read_row_stored:
  assumes "r < length (rows st)" "length (rows st ! r) = length (registry st)"
  shows "read_row st r = rows st ! r"
  using assms by (intro nth_equalityI) (simp_all add: read_row_nth)

lemma rows_merged_state:
  "r < nat (hdr_m a) \<Longrightarrow> rows (merged_state a d) ! r = read_row a r @ read_row d r"
  by (simp add: merged_state_def)

lemma BIGSI_merge_ok:
  assumes "dbs w (db_path acceptor) = Some a" "dbs w (db_path donor) = Some d"
    and "\<not> read_only acceptor"
    and "hdr_k a = hdr_k d" "hdr_m a = hdr_m d" "hdr_h a = hdr_h d"
  shows "BIGSI_merge acceptor donor w =
           (Inr (), log_event (Call_merge (db_path acceptor) (db_path donor))
                      (w\<lparr>dbs := (dbs w)(db_path acceptor \<mapsto> merged_state a d)\<rparr>))"
  using assms by (simp add: BIGSI_merge_def)

text \<open>
  C4. For two indexes with the same header, \<^verbatim>\<open>merge(db1, db2)\<close> opens \<^verbatim>\<open>db1\<close>, then
  \<^verbatim>\<open>db2\<close>, and calls the merge of \<^verbatim>\<open>db1\<close> with \<^verbatim>\<open>db2\<close> as its argument: \<^verbatim>\<open>db1\<close> is the
  acceptor. Afterwards \<^verbatim>\<open>db1\<close> has \<open>n_a + n_d\<close> columns, where \<open>n_a\<close> and \<open>n_d\<close> are the
  column counts of \<^verbatim>\<open>db1\<close> and \<^verbatim>\<open>db2\<close> before: in every row the columns below \<open>n_a\<close> are
  the acceptor's and column \<open>n_a + c\<close> is the donor's column \<open>c\<close>, the registry of \<^verbatim>\<open>db1\<close> is
  followed by that of \<^verbatim>\<open>db2\<close> at the same offset, and the result reads
  \<^verbatim>\<open>merged db2 into db1.\<close>
\<close>

theorem merge_appends_donor:
  assumes a: "dbs w db1 = Some a" and d: "dbs w db2 = Some d"
    and hdr: "hdr_k a = hdr_k d" "hdr_m a = hdr_m d" "hdr_h a = hdr_h d"
  shows "\<exists>w'. bigsi_merge db1 db2 w =
                (Inr (PyDict [(''result'', ''merged '' @ db2 @ '' into '' @ db1 @ ''.'')]), w')
          \<and> trace w' = trace w @ [Open_BIGSI db1 None None None, Open_BIGSI db2 None None None,
                                   Call_merge db1 db2]
          \<and> dbs w' = (dbs w)(db1 \<mapsto> merged_state a d)
          \<and> registry (merged_state a d) = registry a @ registry d
          \<and> (\<forall>c < length (registry d).
                registry (merged_state a d) ! (length (registry a) + c) = registry d ! c)
          \<and> (\<forall>r < nat (hdr_m a).
                rows (merged_state a d) ! r = read_row a r @ read_row d r
                \<and> length (rows (merged_state a d) ! r)
                    = length (registry a) + length (registry d)
                \<and> (\<forall>c < length (registry a).
                      rows (merged_state a d) ! r ! c = read_row a r ! c)
                \<and> (\<forall>c < length (registry d).
                      rows (merged_state a d) ! r ! (length (registry a) + c)
                        = read_row d r ! c))"
proof -
  define w1 where "w1 = log_event (Open_BIGSI db1 None None None) w"
  define w2 where "w2 = log_event (Open_BIGSI db2 None None None) w1"
  define acceptor where "acceptor = \<lparr>db_path = db1, open_mode = None,
      bloom_filter_size = hdr_m a, kmer_size = hdr_k a\<rparr>"
  define donor where "donor = \<lparr>db_path = db2, open_mode = None,
      bloom_filter_size = hdr_m d, kmer_size = hdr_k d\<rparr>"
  define w3 where "w3 = log_event (Call_merge db1 db2)
                          (w2\<lparr>dbs := (dbs w2)(db1 \<mapsto> merged_state a d)\<rparr>)"
  have d1: "dbs w1 db2 = Some d" using d by (simp add: w1_def)
  have a2: "dbs w2 (db_path acceptor) = Some a" using a by (simp add: w2_def w1_def acceptor_def)
  have d2: "dbs w2 (db_path donor) = Some d" using d by (simp add: w2_def w1_def donor_def)
  have rw: "\<not> read_only acceptor" by (simp add: read_only_def acceptor_def)
  have m: "BIGSI_merge acceptor donor w2 = (Inr (), w3)"
    using BIGSI_merge_ok [OF a2 d2 rw hdr] by (simp add: w3_def acceptor_def donor_def)
  have o1: "and_then (BIGSI_open db1 None None None) k w = k acceptor w1"
    for k :: "BIGSI \<Rightarrow> 'b action"
    unfolding acceptor_def w1_def by (rule open_then [OF a])
  have o2: "and_then (BIGSI_open db2 None None None) k w1 = k donor w2"
    for k :: "BIGSI \<Rightarrow> 'b action"
    unfolding donor_def w2_def by (rule open_then [OF d1])
  have "bigsi_merge db1 db2 w =
          (Inr (PyDict [(''result'', ''merged '' @ db2 @ '' into '' @ db1 @ ''.'')]), w3)"
    unfolding bigsi_merge_def o1 o2
    using m by (simp add: and_then_def returns_def)
  moreover have "trace w3 = trace w @ [Open_BIGSI db1 None None None,
      Open_BIGSI db2 None None None, Call_merge db1 db2]"
    by (simp add: w3_def w2_def w1_def log_event_def)
  moreover have "dbs w3 = (dbs w)(db1 \<mapsto> merged_state a d)"
    by (simp add: w3_def w2_def w1_def log_event_def)
  moreover have "registry (merged_state a d) = registry a @ registry d"
    by (simp add: merged_state_def)
  moreover have "\<forall>c < length (registry d).
                registry (merged_state a d) ! (length (registry a) + c) = registry d ! c"
    by (simp add: merged_state_def)
  moreover have "\<forall>r < nat (hdr_m a).
                rows (merged_state a d) ! r = read_row a r @ read_row d r
                \<and> length (rows (merged_state a d) ! r)
                    = length (registry a) + length (registry d)
                \<and> (\<forall>c < length (registry a).
                      rows (merged_state a d) ! r ! c = read_row a r ! c)
                \<and> (\<forall>c < length (registry d).
                      rows (merged_state a d) ! r ! (length (registry a) + c)
                        = read_row d r ! c)"
    by (simp add: rows_merged_state nth_append)
  ultimately show ?thesis by blast
qed

text \<open>
  C4 on concrete indexes. The acceptor of the second run has two samples and rows stored
  one column wide: the donor's columns still start at column 2.
\<close>

theorem merge_appends_donor_witness:
  "dbs example_world ''./db'' = Some acceptor_index
   \<and> dbs example_world ''./db2'' = Some donor_index
   \<and> fst ((bigsi_merge ''./db'' ''./db2'' :: unit py_value action) example_world)
       = Inr (PyDict [(''result'', ''merged ./db2 into ./db.'')])
   \<and> rows (merged_state acceptor_index donor_index)
       = [[True, False, True], [False, True, True]]
   \<and> registry (merged_state acceptor_index donor_index) = [Some ''S1'', Some ''S2'', None]
   \<and> dbs (snd ((bigsi_merge ''./db'' ''./db2'' :: unit py_value action) example_world))
       = (dbs example_world)(''./db'' \<mapsto> merged_state acceptor_index donor_index)
   \<and> rows (merged_state (acceptor_index\<lparr>registry := [Some ''S1'', Some ''S3'']\<rparr>) donor_index)
       = [[True, False, False, True], [False, False, True, True]]"
proof -
  have a: "dbs example_world ''./db'' = Some acceptor_index" by (simp add: example_world_def)
  have d: "dbs example_world ''./db2'' = Some donor_index" by (simp add: example_world_def)
  have h: "hdr_k acceptor_index = hdr_k donor_index" "hdr_m acceptor_index = hdr_m donor_index"
    "hdr_h acceptor_index = hdr_h donor_index"
    by (simp_all add: acceptor_index_def donor_index_def)
  obtain w' :: world where
    r: "(bigsi_merge ''./db'' ''./db2'' :: unit py_value action) example_world
          = (Inr (PyDict [(''result'', ''merged '' @ ''./db2'' @ '' into '' @ ''./db'' @ ''.'')]), w')"
    and w: "dbs w' = (dbs example_world)(''./db'' \<mapsto> merged_state acceptor_index donor_index)"
    using merge_appends_donor [OF a d h] by blast
  have rows: "rows (merged_state acceptor_index donor_index)
       = [[True, False, True], [False, True, True]]"
    by (simp add: merged_state_def read_row_def acceptor_index_def donor_index_def upt_rec)
  have reg: "registry (merged_state acceptor_index donor_index) = [Some ''S1'', Some ''S2'', None]"
    by (simp add: merged_state_def acceptor_index_def donor_index_def)
  have short: "rows (merged_state (acceptor_index\<lparr>registry := [Some ''S1'', Some ''S3'']\<rparr>)
                 donor_index)
       = [[True, False, False, True], [False, False, True, True]]"
    by (simp add: merged_state_def read_row_def acceptor_index_def donor_index_def upt_rec)
  show ?thesis using a d r w rows reg short by simp
qed

section \<open>Dispatch in remcdbg\<close>

text \<open>
  C7. For each of the command names \<^verbatim>\<open>insert\<close>, \<^verbatim>\<open>query\<close>, \<^verbatim>\<open>stats\<close>, \<^verbatim>\<open>samples\<close>,
  \<^verbatim>\<open>kmers\<close>, \<^verbatim>\<open>compress\<close>, \<^verbatim>\<open>shutdown\<close> and \<^verbatim>\<open>bitcount\<close>, \<^verbatim>\<open>run_subtool\<close> picks the
  \<^verbatim>\<open>run\<close> function of the module of that name, by equality on \<^verbatim>\<open>args.command\<close>, and calls
  it with \<^verbatim>\<open>(parser, args, CONN_CONFIG)\<close>; only a \<^verbatim>\<open>BusyLoadingError\<close> is caught.
\<close>

theorem run_subtool_dispatch:
  assumes "(command args, M) \<in> set [(''insert'', Cmds_insert), (''query'', Cmds_query),
      (''stats'', Cmds_stats), (''samples'', Cmds_samples), (''kmers'', Cmds_kmers),
      (''compress'', Cmds_compress), (''shutdown'', Cmds_shutdown),
      (''bitcount'', Cmds_bitcount)]"
  shows "run_subtool run_of CONN_CONFIG parser args w =
           (case run_of M parser args CONN_CONFIG (log_event (Call_run M) w) of
              (Inl BusyLoadingError, w') \<Rightarrow>
                print ''Redis is loading the dataset in memory. Please try again when finished. '' w'
            | (Inl e, w') \<Rightarrow> (Inl e, w')
            | (Inr u, w') \<Rightarrow> (Inr (), w'))"
proof -
  consider "command args = ''insert''" "M = Cmds_insert"
    | "command args = ''query''" "M = Cmds_query"
    | "command args = ''stats''" "M = Cmds_stats"
    | "command args = ''samples''" "M = Cmds_samples"
    | "command args = ''kmers''" "M = Cmds_kmers"
    | "command args = ''compress''" "M = Cmds_compress"
    | "command args = ''shutdown''" "M = Cmds_shutdown"
    | "command args = ''bitcount''" "M = Cmds_bitcount"
    using assms by auto
  then show ?thesis
    by cases (simp_all add: run_subtool_def)
qed

text \<open>C7 on the command \<^verbatim>\<open>query\<close>.\<close>

theorem run_subtool_dispatch_witness:
  "(command \<lparr>command = ''query''\<rparr>, Cmds_query)
     \<in> set [(''insert'', Cmds_insert), (''query'', Cmds_query),
      (''stats'', Cmds_stats), (''samples'', Cmds_samples), (''kmers'', Cmds_kmers),
      (''compress'', Cmds_compress), (''shutdown'', Cmds_shutdown),
      (''bitcount'', Cmds_bitcount)]
   \<and> run_subtool (\<lambda>M p a c w. (Inr (), w)) [(''localhost'', 6379 :: int)] ()
        \<lparr>command = ''query''\<rparr> example_world
       = (Inr (), log_event (Call_run Cmds_query) example_world)"
proof -
  have h: "(command \<lparr>command = ''query''\<rparr>, Cmds_query)
     \<in> set [(''insert'', Cmds_insert), (''query'', Cmds_query),
      (''stats'', Cmds_stats), (''samples'', Cmds_samples), (''kmers'', Cmds_kmers),
      (''compress'', Cmds_compress), (''shutdown'', Cmds_shutdown),
      (''bitcount'', Cmds_bitcount)]"
    by simp
  show ?thesis
    using h run_subtool_dispatch [OF h, where run_of = "\<lambda>M p a c w. (Inr (), w)" and parser = "()"
        and CONN_CONFIG = "[(''localhost'', 6379 :: int)]" and w = example_world]
    by simp
qed

text \<open>Any other command name leaves \<^verbatim>\<open>run\<close> unbound, and no module is called.\<close>

lemma run_subtool_unknown:
  assumes "command args \<notin> set [''insert'', ''query'', ''stats'', ''samples'', ''kmers'',
      ''compress'', ''shutdown'', ''bitcount'']"
  shows "run_subtool run_of CONN_CONFIG parser args w = (Inl UnboundLocalError, w)"
  using assms by (simp add: run_subtool_def)

end
